theory Spec2Isabelle
  imports Complex_Main "HOL-Library.AList"
begin

section \<open>Python values and errors\<close>

text \<open>
  The registry of \<^verbatim>\<open>resources.py\<close> is a Python dictionary literal whose values are
  strings, integers, floats, booleans, \<^verbatim>\<open>None\<close>, lists and nested dictionaries. A
  dictionary is an association list in the order of the literal (no key occurs twice in
  any of them); a float literal is kept as the rational number its decimal text denotes.
\<close>

datatype pyval =
    PNone
  | PBool bool
  | PInt int
  | PFloat rat
  | PStr string
  | PList "pyval list"
  | PDict "(pyval \<times> pyval) list"

text \<open>
  The exceptions of the code: \<^verbatim>\<open>raise Exception(msg)\<close> in
  \<^verbatim>\<open>map_model_name_to_task_number\<close>, the \<^verbatim>\<open>SystemExit\<close> with which
  \<^verbatim>\<open>argparse\<close> refuses a command line, and whatever a function of a module that is
  not among the sources (or of the operating system) raises.
\<close>

datatype py_error =
    Exception string
  | SystemExit int
  | Raised string

section \<open>resources.py: the model registry\<close>

text \<open>
  A model descriptor is a dictionary with string keys. Each descriptor of \<^verbatim>\<open>MODELS\<close>
  is a constant of its own, named after its key, and so is its \<^verbatim>\<open>organ_indices\<close>
  dictionary.
\<close>

type_synonym descriptor = "(string \<times> pyval) list"

definition clin_ct_lungs_organ_indices :: "(pyval \<times> pyval) list" where
  "clin_ct_lungs_organ_indices =
    [(PInt 1, PStr ''lung_upper_lobe_left''), (PInt 2, PStr ''lung_lower_lobe_left''),
     (PInt 3, PStr ''lung_upper_lobe_right''), (PInt 4, PStr ''lung_middle_lobe_right''),
     (PInt 5, PStr ''lung_lower_lobe_right'')]"

definition clin_ct_lungs_entry :: descriptor where
  "clin_ct_lungs_entry =
    [(''url'', PStr ''https://enhance-pet.s3.eu-central-1.amazonaws.com/moose/clin_ct_lungs_24062023.zip''),
     (''filename'', PStr ''Dataset333_HMS3dlungs.zip''),
     (''directory'', PStr ''Dataset333_HMS3dlungs''),
     (''trainer'', PStr ''nnUNetTrainer_2000epochs_NoMirroring''),
     (''voxel_spacing'', PList [PFloat (15 / 10), PFloat (15 / 10), PFloat (15 / 10)]),
     (''multilabel_prefix'', PStr ''CT_Lungs_''),
     (''configuration'', PStr ''3d_fullres''),
     (''planner'', PStr ''nnUNetPlans''),
     (''organ_indices'', PDict clin_ct_lungs_organ_indices),
     (''limit_fov'', PNone)]"

definition clin_ct_organs_organ_indices :: "(pyval \<times> pyval) list" where
  "clin_ct_organs_organ_indices =
    [(PInt 1, PStr ''adrenal_gland_left''), (PInt 2, PStr ''adrenal_gland_right''),
     (PInt 3, PStr ''bladder''), (PInt 4, PStr ''brain''), (PInt 5, PStr ''gallbladder''),
     (PInt 6, PStr ''kidney_left''), (PInt 7, PStr ''kidney_right''), (PInt 8, PStr ''liver''),
     (PInt 9, PStr ''lung_lower_lobe_left''), (PInt 10, PStr ''lung_lower_lobe_right''),
     (PInt 11, PStr ''lung_middle_lobe_right''), (PInt 12, PStr ''lung_upper_lobe_left''),
     (PInt 13, PStr ''lung_upper_lobe_right''), (PInt 14, PStr ''pancreas''),
     (PInt 15, PStr ''spleen''), (PInt 16, PStr ''stomach''), (PInt 17, PStr ''thyroid_left''),
     (PInt 18, PStr ''thyroid_right''), (PInt 19, PStr ''trachea'')]"

definition clin_ct_organs_entry :: descriptor where
  "clin_ct_organs_entry =
    [(''url'', PStr ''https://enhance-pet.s3.eu-central-1.amazonaws.com/moose/clin_ct_organs_05082024.zip''),
     (''filename'', PStr ''Dataset123_Organs.zip''),
     (''directory'', PStr ''Dataset123_Organs''),
     (''trainer'', PStr ''nnUNetTrainer_2000epochs_NoMirroring''),
     (''voxel_spacing'', PList [PFloat (15 / 10), PFloat (15 / 10), PFloat (15 / 10)]),
     (''multilabel_prefix'', PStr ''CT_Organs_''),
     (''configuration'', PStr ''3d_fullres''),
     (''planner'', PStr ''nnUNetPlans''),
     (''organ_indices'', PDict clin_ct_organs_organ_indices),
     (''limit_fov'', PNone)]"

definition preclin_mr_all_organ_indices :: "(pyval \<times> pyval) list" where
  "preclin_mr_all_organ_indices =
    [(PInt 1, PStr ''Brain''), (PInt 2, PStr ''Liver''), (PInt 3, PStr ''Intestines''),
     (PInt 4, PStr ''Pancreas''), (PInt 5, PStr ''Thyroid''), (PInt 6, PStr ''Spleen''),
     (PInt 7, PStr ''Bladder''), (PInt 8, PStr ''OuterKidney''),
     (PInt 9, PStr ''InnerKidney''), (PInt 10, PStr ''HeartInside''),
     (PInt 11, PStr ''HeartOutside''), (PInt 12, PStr ''WAT Subcutaneous''),
     (PInt 13, PStr ''WAT Visceral''), (PInt 14, PStr ''BAT''), (PInt 15, PStr ''Muscle TF''),
     (PInt 16, PStr ''Muscle TB''), (PInt 17, PStr ''Muscle BB''),
     (PInt 18, PStr ''Muscle BF''), (PInt 19, PStr ''Aorta''), (PInt 20, PStr ''Lung''),
     (PInt 21, PStr ''Stomach'')]"

definition preclin_mr_all_entry :: descriptor where
  "preclin_mr_all_entry =
    [(''url'', PStr ''https://enhance-pet.s3.eu-central-1.amazonaws.com/moose/preclin_mr_all_05122023.zip''),
     (''filename'', PStr ''Dataset234_minimoose.zip''),
     (''directory'', PStr ''Dataset234_minimoose''),
     (''trainer'', PStr ''nnUNetTrainer''),
     (''voxel_spacing'', PList [PFloat (4000000059604645 / 10000000000000000), PFloat (4000000059604645 / 10000000000000000), PFloat (4000000059604645 / 10000000000000000)]),
     (''multilabel_prefix'', PStr ''Preclin_MR_all_''),
     (''configuration'', PStr ''3d_fullres''),
     (''planner'', PStr ''nnUNetPlans''),
     (''organ_indices'', PDict preclin_mr_all_organ_indices),
     (''limit_fov'', PNone)]"

definition clin_ct_body_organ_indices :: "(pyval \<times> pyval) list" where
  "clin_ct_body_organ_indices =
    [(PInt 1, PStr ''Legs''), (PInt 2, PStr ''Body''), (PInt 3, PStr ''Head''),
     (PInt 4, PStr ''Arms'')]"

definition clin_ct_body_entry :: descriptor where
  "clin_ct_body_entry =
    [(''url'', PStr ''https://enhance-pet.s3.eu-central-1.amazonaws.com/moose/clin_ct_body_27112023.zip''),
     (''filename'', PStr ''Dataset001_body.zip''),
     (''directory'', PStr ''Dataset001_body''),
     (''trainer'', PStr ''nnUNetTrainer''),
     (''voxel_spacing'', PList [PInt 5, PInt 5, PInt 5]),
     (''multilabel_prefix'', PStr ''CT_Body_''),
     (''configuration'', PStr ''3d_fullres''),
     (''planner'', PStr ''nnUNetPlans''),
     (''organ_indices'', PDict clin_ct_body_organ_indices),
     (''limit_fov'', PNone)]"

definition clin_ct_ribs_organ_indices :: "(pyval \<times> pyval) list" where
  "clin_ct_ribs_organ_indices =
    [(PInt 1, PStr ''rib_left_1''), (PInt 2, PStr ''rib_left_2''),
     (PInt 3, PStr ''rib_left_3''), (PInt 4, PStr ''rib_left_4''),
     (PInt 5, PStr ''rib_left_5''), (PInt 6, PStr ''rib_left_6''),
     (PInt 7, PStr ''rib_left_7''), (PInt 8, PStr ''rib_left_8''),
     (PInt 9, PStr ''rib_left_9''), (PInt 10, PStr ''rib_left_10''),
     (PInt 11, PStr ''rib_left_11''), (PInt 12, PStr ''rib_left_12''),
     (PInt 13, PStr ''rib_left_13''), (PInt 14, PStr ''rib_right_1''),
     (PInt 15, PStr ''rib_right_2''), (PInt 16, PStr ''rib_right_3''),
     (PInt 17, PStr ''rib_right_4''), (PInt 18, PStr ''rib_right_5''),
     (PInt 19, PStr ''rib_right_6''), (PInt 20, PStr ''rib_right_7''),
     (PInt 21, PStr ''rib_right_8''), (PInt 22, PStr ''rib_right_9''),
     (PInt 23, PStr ''rib_right_10''), (PInt 24, PStr ''rib_right_11''),
     (PInt 25, PStr ''rib_right_12''), (PInt 26, PStr ''rib_right_13''),
     (PInt 27, PStr ''sternum'')]"

definition clin_ct_ribs_entry :: descriptor where
  "clin_ct_ribs_entry =
    [(''url'', PStr ''https://enhance-pet.s3.eu-central-1.amazonaws.com/moose/clin_ct_ribs_11082024.zip''),
     (''filename'', PStr ''Dataset444_Ribs.zip''),
     (''directory'', PStr ''Dataset444_Ribs''),
     (''trainer'', PStr ''nnUNetTrainer_2000epochs_NoMirroring''),
     (''voxel_spacing'', PList [PFloat (15 / 10), PFloat (15 / 10), PFloat (15 / 10)]),
     (''multilabel_prefix'', PStr ''CT_Ribs_''),
     (''configuration'', PStr ''3d_fullres_big_patch''),
     (''planner'', PStr ''nnUNetPlans''),
     (''organ_indices'', PDict clin_ct_ribs_organ_indices),
     (''limit_fov'', PNone)]"

definition clin_ct_muscles_organ_indices :: "(pyval \<times> pyval) list" where
  "clin_ct_muscles_organ_indices =
    [(PInt 1, PStr ''autochthon_left''), (PInt 2, PStr ''autochthon_right''),
     (PInt 3, PStr ''gluteus_maximus_left''), (PInt 4, PStr ''gluteus_maximus_right''),
     (PInt 5, PStr ''gluteus_medius_left''), (PInt 6, PStr ''gluteus_medius_right''),
     (PInt 7, PStr ''gluteus_minimus_left''), (PInt 8, PStr ''gluteus_minimus_right''),
     (PInt 9, PStr ''iliopsoas_left''), (PInt 10, PStr ''iliopsoas_right'')]"

definition clin_ct_muscles_entry :: descriptor where
  "clin_ct_muscles_entry =
    [(''url'', PStr ''https://enhance-pet.s3.eu-central-1.amazonaws.com/moose/clin_ct_muscles_09082024.zip''),
     (''filename'', PStr ''Dataset555_Muscles.zip''),
     (''directory'', PStr ''Dataset555_Muscles''),
     (''trainer'', PStr ''nnUNetTrainer_2000epochs_NoMirroring''),
     (''voxel_spacing'', PList [PFloat (15 / 10), PFloat (15 / 10), PFloat (15 / 10)]),
     (''multilabel_prefix'', PStr ''CT_Muscles_''),
     (''configuration'', PStr ''3d_fullres''),
     (''planner'', PStr ''nnUNetPlans''),
     (''organ_indices'', PDict clin_ct_muscles_organ_indices),
     (''limit_fov'', PNone)]"

definition clin_ct_peripheral_bones_organ_indices :: "(pyval \<times> pyval) list" where
  "clin_ct_peripheral_bones_organ_indices =
    [(PInt 1, PStr ''carpal_left''), (PInt 2, PStr ''carpal_right''),
     (PInt 3, PStr ''clavicle_left''), (PInt 4, PStr ''clavicle_right''),
     (PInt 5, PStr ''femur_left''), (PInt 6, PStr ''femur_right''),
     (PInt 7, PStr ''fibula_left''), (PInt 8, PStr ''fibula_right''),
     (PInt 9, PStr ''fingers_left''), (PInt 10, PStr ''fingers_right''),
     (PInt 11, PStr ''humerus_left''), (PInt 12, PStr ''humerus_right''),
     (PInt 13, PStr ''metacarpal_left''), (PInt 14, PStr ''metacarpal_right''),
     (PInt 15, PStr ''metatarsal_left''), (PInt 16, PStr ''metatarsal_right''),
     (PInt 17, PStr ''patella_left''), (PInt 18, PStr ''patella_right''),
     (PInt 19, PStr ''radius_left''), (PInt 20, PStr ''radius_right''),
     (PInt 21, PStr ''scapula_left''), (PInt 22, PStr ''scapula_right''),
     (PInt 23, PStr ''skull''), (PInt 24, PStr ''tarsal_left''),
     (PInt 25, PStr ''tarsal_right''), (PInt 26, PStr ''tibia_left''),
     (PInt 27, PStr ''tibia_right''), (PInt 28, PStr ''toes_left''),
     (PInt 29, PStr ''toes_right''), (PInt 30, PStr ''ulna_left''),
     (PInt 31, PStr ''ulna_right'')]"

definition clin_ct_peripheral_bones_entry :: descriptor where
  "clin_ct_peripheral_bones_entry =
    [(''url'', PStr ''https://enhance-pet.s3.eu-central-1.amazonaws.com/moose/clin_ct_peripheral_bones_05082024.zip''),
     (''filename'', PStr ''Dataset666_Peripheral-Bones.zip''),
     (''directory'', PStr ''Dataset666_Peripheral-Bones''),
     (''trainer'', PStr ''nnUNetTrainer_2000epochs_NoMirroring''),
     (''voxel_spacing'', PList [PFloat (15 / 10), PFloat (15 / 10), PFloat (15 / 10)]),
     (''multilabel_prefix'', PStr ''CT_Peripheral-Bones_''),
     (''configuration'', PStr ''3d_fullres''),
     (''planner'', PStr ''nnUNetPlans''),
     (''organ_indices'', PDict clin_ct_peripheral_bones_organ_indices),
     (''limit_fov'', PNone)]"

definition clin_ct_fat_organ_indices :: "(pyval \<times> pyval) list" where
  "clin_ct_fat_organ_indices =
    [(PInt 1, PStr ''spinal_chord''), (PInt 2, PStr ''skeletal_muscle''),
     (PInt 3, PStr ''subcutaneous_fat''), (PInt 4, PStr ''visceral_fat''),
     (PInt 5, PStr ''thoracic_fat''), (PInt 6, PStr ''eyes''), (PInt 7, PStr ''testicles''),
     (PInt 8, PStr ''prostate'')]"

definition clin_ct_fat_entry :: descriptor where
  "clin_ct_fat_entry =
    [(''url'', PStr ''https://enhance-pet.s3.eu-central-1.amazonaws.com/moose/clin_ct_fat_31082023.zip''),
     (''filename'', PStr ''Dataset777_Fat.zip''),
     (''directory'', PStr ''Dataset777_Fat''),
     (''trainer'', PStr ''nnUNetTrainer_2000epochs_NoMirroring''),
     (''voxel_spacing'', PList [PFloat (15 / 10), PFloat (15 / 10), PFloat (15 / 10)]),
     (''multilabel_prefix'', PStr ''CT_Fat_''),
     (''configuration'', PStr ''3d_fullres''),
     (''planner'', PStr ''nnUNetPlans''),
     (''organ_indices'', PDict clin_ct_fat_organ_indices),
     (''limit_fov'', PNone)]"

definition clin_ct_vertebrae_organ_indices :: "(pyval \<times> pyval) list" where
  "clin_ct_vertebrae_organ_indices =
    [(PInt 1, PStr ''vertebra_C1''), (PInt 2, PStr ''vertebra_C2''),
     (PInt 3, PStr ''vertebra_C3''), (PInt 4, PStr ''vertebra_C4''),
     (PInt 5, PStr ''vertebra_C5''), (PInt 6, PStr ''vertebra_C6''),
     (PInt 7, PStr ''vertebra_C7''), (PInt 8, PStr ''vertebra_T1''),
     (PInt 9, PStr ''vertebra_T2''), (PInt 10, PStr ''vertebra_T3''),
     (PInt 11, PStr ''vertebra_T4''), (PInt 12, PStr ''vertebra_T5''),
     (PInt 13, PStr ''vertebra_T6''), (PInt 14, PStr ''vertebra_T7''),
     (PInt 15, PStr ''vertebra_T8''), (PInt 16, PStr ''vertebra_T9''),
     (PInt 17, PStr ''vertebra_T10''), (PInt 18, PStr ''vertebra_T11''),
     (PInt 19, PStr ''vertebra_T12''), (PInt 20, PStr ''vertebra_L1''),
     (PInt 21, PStr ''vertebra_L2''), (PInt 22, PStr ''vertebra_L3''),
     (PInt 23, PStr ''vertebra_L4''), (PInt 24, PStr ''vertebra_L5''),
     (PInt 25, PStr ''vertebra_L6''), (PInt 26, PStr ''hip_left''),
     (PInt 27, PStr ''hip_right''), (PInt 28, PStr ''sacrum'')]"

definition clin_ct_vertebrae_entry :: descriptor where
  "clin_ct_vertebrae_entry =
    [(''url'', PStr ''https://enhance-pet.s3.eu-central-1.amazonaws.com/moose/clin_ct_vertebrae_11082024.zip''),
     (''filename'', PStr ''Dataset111_Vertebrae.zip''),
     (''directory'', PStr ''Dataset111_Vertebrae''),
     (''trainer'', PStr ''nnUNetTrainer_2000_epochs_DA5NoMirroring''),
     (''voxel_spacing'', PList [PFloat (15 / 10), PFloat (15 / 10), PFloat (15 / 10)]),
     (''multilabel_prefix'', PStr ''CT_Vertebrae_''),
     (''configuration'', PStr ''3d_fullres''),
     (''planner'', PStr ''nnUNetPlans''),
     (''organ_indices'', PDict clin_ct_vertebrae_organ_indices),
     (''limit_fov'', PNone)]"

definition clin_ct_cardiac_organ_indices :: "(pyval \<times> pyval) list" where
  "clin_ct_cardiac_organ_indices =
    [(PInt 1, PStr ''heart_myocardium''), (PInt 2, PStr ''heart_atrium_left''),
     (PInt 3, PStr ''heart_atrium_right''), (PInt 4, PStr ''heart_ventricle_left''),
     (PInt 5, PStr ''heart_ventricle_right''), (PInt 6, PStr ''aorta''),
     (PInt 7, PStr ''iliac_artery_left''), (PInt 8, PStr ''iliac_artery_right''),
     (PInt 9, PStr ''iliac_vena_left''), (PInt 10, PStr ''iliac_vena_right''),
     (PInt 11, PStr ''inferior_vena_cava''), (PInt 12, PStr ''portal_splenic_vein''),
     (PInt 13, PStr ''pulmonary_artery'')]"

definition clin_ct_cardiac_entry :: descriptor where
  "clin_ct_cardiac_entry =
    [(''url'', PStr ''https://enhance-pet.s3.eu-central-1.amazonaws.com/moose/clin_ct_cardiac_09082024.zip''),
     (''filename'', PStr ''Dataset888_Cardiac.zip''),
     (''directory'', PStr ''Dataset888_Cardiac''),
     (''trainer'', PStr ''nnUNetTrainer_2000epochs_NoMirroring''),
     (''voxel_spacing'', PList [PFloat (15 / 10), PFloat (15 / 10), PFloat (15 / 10)]),
     (''multilabel_prefix'', PStr ''CT_Cardiac_''),
     (''configuration'', PStr ''3d_fullres''),
     (''planner'', PStr ''nnUNetPlans''),
     (''organ_indices'', PDict clin_ct_cardiac_organ_indices),
     (''limit_fov'', PNone)]"

definition clin_ct_digestive_organ_indices :: "(pyval \<times> pyval) list" where
  "clin_ct_digestive_organ_indices =
    [(PInt 1, PStr ''esophagus''), (PInt 2, PStr ''trachea''), (PInt 3, PStr ''small_bowel''),
     (PInt 4, PStr ''duodenum''), (PInt 5, PStr ''colon''), (PInt 6, PStr ''urinary_bladder''),
     (PInt 7, PStr ''face'')]"

definition clin_ct_digestive_entry :: descriptor where
  "clin_ct_digestive_entry =
    [(''url'', PStr ''https://enhance-pet.s3.eu-central-1.amazonaws.com/moose/clin_ct_digestive_10092023.zip''),
     (''filename'', PStr ''Dataset999_Digestive.zip''),
     (''directory'', PStr ''Dataset999_Digestive''),
     (''trainer'', PStr ''nnUNetTrainer_2000epochs_NoMirroring''),
     (''voxel_spacing'', PList [PFloat (15 / 10), PFloat (15 / 10), PFloat (15 / 10)]),
     (''multilabel_prefix'', PStr ''CT_Digestive_''),
     (''configuration'', PStr ''3d_fullres''),
     (''planner'', PStr ''nnUNetPlans''),
     (''organ_indices'', PDict clin_ct_digestive_organ_indices),
     (''limit_fov'', PNone)]"

definition preclin_ct_legs_organ_indices :: "(pyval \<times> pyval) list" where
  "preclin_ct_legs_organ_indices =
    [(PInt 1, PStr ''right_leg_muscle''), (PInt 2, PStr ''left_leg_muscle'')]"

definition preclin_ct_legs_entry :: descriptor where
  "preclin_ct_legs_entry =
    [(''url'', PStr ''https://enhance-pet.s3.eu-central-1.amazonaws.com/moose/preclin_ct_legs_05122023.zip''),
     (''filename'', PStr ''Dataset256_Preclin_leg_muscles.zip''),
     (''directory'', PStr ''Dataset256_Preclin_leg_muscles''),
     (''trainer'', PStr ''nnUNetTrainerNoMirroring''),
     (''voxel_spacing'', PList [PFloat (18000000715255737 / 100000000000000000), PFloat (18000000715255737 / 100000000000000000), PFloat (18000000715255737 / 100000000000000000)]),
     (''multilabel_prefix'', PStr ''Preclin_CT_legs_''),
     (''configuration'', PStr ''3d_fullres''),
     (''planner'', PStr ''nnUNetPlans''),
     (''organ_indices'', PDict preclin_ct_legs_organ_indices),
     (''limit_fov'', PNone)]"

definition clin_ct_all_bones_v1_organ_indices :: "(pyval \<times> pyval) list" where
  "clin_ct_all_bones_v1_organ_indices =
    [(PInt 1, PStr ''carpal''), (PInt 2, PStr ''clavicle''), (PInt 3, PStr ''femur''),
     (PInt 4, PStr ''fibula''), (PInt 5, PStr ''humerus''), (PInt 6, PStr ''metacarpal''),
     (PInt 7, PStr ''metatarsal''), (PInt 8, PStr ''patella''), (PInt 9, PStr ''pelvis''),
     (PInt 10, PStr ''fingers''), (PInt 11, PStr ''radius''), (PInt 12, PStr ''ribcage''),
     (PInt 13, PStr ''scapula''), (PInt 14, PStr ''skull''), (PInt 15, PStr ''spine''),
     (PInt 16, PStr ''sternum''), (PInt 17, PStr ''tarsal''), (PInt 18, PStr ''tibia''),
     (PInt 19, PStr ''toes''), (PInt 20, PStr ''ulna'')]"

definition clin_ct_all_bones_v1_entry :: descriptor where
  "clin_ct_all_bones_v1_entry =
    [(''url'', PStr ''https://enhance-pet.s3.eu-central-1.amazonaws.com/moose/clin_ct_all_bones_25102023.zip''),
     (''filename'', PStr ''Dataset600_Original_bones.zip''),
     (''directory'', PStr ''Dataset600_Original_bones''),
     (''trainer'', PStr ''nnUNetTrainer_2000epochs''),
     (''voxel_spacing'', PList [PFloat (15 / 10), PFloat (15 / 10), PFloat (15 / 10)]),
     (''multilabel_prefix'', PStr ''Clin_CT_all_bones_''),
     (''configuration'', PStr ''3d_fullres''),
     (''planner'', PStr ''nnUNetPlans''),
     (''organ_indices'', PDict clin_ct_all_bones_v1_organ_indices),
     (''limit_fov'', PNone)]"

definition clin_ct_PUMA_organ_indices :: "(pyval \<times> pyval) list" where
  "clin_ct_PUMA_organ_indices =
    [(PInt 0, PStr ''background''), (PInt 1, PStr ''Spleen''), (PInt 2, PStr ''Kidneys''),
     (PInt 3, PStr ''Gallbladder''), (PInt 4, PStr ''Liver''), (PInt 5, PStr ''Stomach''),
     (PInt 6, PStr ''Pancreas''), (PInt 7, PStr ''Adrenal_glands''), (PInt 8, PStr ''Lungs''),
     (PInt 9, PStr ''Heart_myocardium''), (PInt 10, PStr ''Heart_atrium_left''),
     (PInt 11, PStr ''Heart_ventricle_left''), (PInt 12, PStr ''Heart_atrium_right''),
     (PInt 13, PStr ''Heart_ventricle_right''), (PInt 14, PStr ''Pulmonary_artery''),
     (PInt 15, PStr ''Aorta''), (PInt 16, PStr ''Inferior_vena_cava''),
     (PInt 17, PStr ''Esophagus''), (PInt 18, PStr ''Trachea''), (PInt 19, PStr ''Digestive''),
     (PInt 20, PStr ''Brain''), (PInt 21, PStr ''Skeleton''), (PInt 22, PStr ''Muscles''),
     (PInt 23, PStr ''Bladder'')]"

definition clin_ct_PUMA_entry :: descriptor where
  "clin_ct_PUMA_entry =
    [(''url'', PStr ''https://enhance-pet.s3.eu-central-1.amazonaws.com/moose/clin_ct_PUMA_1k_23052024.zip''),
     (''filename'', PStr ''Dataset002_PUMA.zip''),
     (''directory'', PStr ''Dataset002_PUMA''),
     (''trainer'', PStr ''nnUNetTrainer_2000epochs_NoMirroring''),
     (''voxel_spacing'', PList [PFloat (15 / 10), PFloat (15 / 10), PFloat (15 / 10)]),
     (''multilabel_prefix'', PStr ''Clin_CT_PUMA_''),
     (''configuration'', PStr ''3d_fullres''),
     (''planner'', PStr ''nnUNetPlans''),
     (''organ_indices'', PDict clin_ct_PUMA_organ_indices),
     (''limit_fov'', PNone)]"

definition clin_pt_fdg_brain_v1_organ_indices :: "(pyval \<times> pyval) list" where
  "clin_pt_fdg_brain_v1_organ_indices =
    [(PInt 0, PStr ''background''), (PInt 1, PStr ''R-Hippocampus''),
     (PInt 2, PStr ''L-Hippocampus''), (PInt 3, PStr ''R-Amygdala''),
     (PInt 4, PStr ''L-Amygdala''), (PInt 5, PStr ''R-Anterior-temporal-lobe-medial-part''),
     (PInt 6, PStr ''L-Anterior-temporal-lobe-medial-part''),
     (PInt 7, PStr ''R-Anterior-temporal-lobe-lateral-part''),
     (PInt 8, PStr ''L-Anterior-temporal-lobe-lateral-part''),
     (PInt 9, PStr ''R-Parahippocampal-and-ambient-gyri''),
     (PInt 10, PStr ''L-Parahippocampal-and-ambient-gyri''),
     (PInt 11, PStr ''R-Superior-temporal-gyrus-posterior-part''),
     (PInt 12, PStr ''L-Superior-temporal-gyrus-posterior-part''),
     (PInt 13, PStr ''R-Middle and inferior temporal gyrus''),
     (PInt 14, PStr ''L-Middle and inferior temporal gyrus''),
     (PInt 15, PStr ''R-Fusiform gyrus''), (PInt 16, PStr ''L-Fusiform gyrus''),
     (PInt 17, PStr ''R-Cerebellum''), (PInt 18, PStr ''L-Cerebellum''),
     (PInt 19, PStr ''Brainstem''), (PInt 20, PStr ''L-Insula''), (PInt 21, PStr ''R-Insula''),
     (PInt 22, PStr ''L-Lateral remainder of occipital lobe''),
     (PInt 23, PStr ''R-Lateral remainder of occipital lobe''),
     (PInt 24, PStr ''L-Cingulate gyrus gyrus cinguli anterior part''),
     (PInt 25, PStr ''R-Cingulate gyrus gyrus cinguli anterior part''),
     (PInt 26, PStr ''L-Cingulate gyrus gyrus cinguli posterior part''),
     (PInt 27, PStr ''R-Cingulate gyrus gyrus cinguli posterior part''),
     (PInt 28, PStr ''L-Middle frontal gyrus''), (PInt 29, PStr ''R-Middle frontal gyrus''),
     (PInt 30, PStr ''L-Posterior temporal lobe''),
     (PInt 31, PStr ''R-Posterior temporal lobe''),
     (PInt 32, PStr ''L-Inferiolateral remainder of parietal lobe''),
     (PInt 33, PStr ''R-Inferiolateral remainder of parietal lobe''),
     (PInt 34, PStr ''L-Caudate nucleus''), (PInt 35, PStr ''R-Caudate nucleus''),
     (PInt 36, PStr ''L-Nucleus accumbens''), (PInt 37, PStr ''R-Nucleus accumbens''),
     (PInt 38, PStr ''L-Putamen''), (PInt 39, PStr ''R-Putamen''),
     (PInt 40, PStr ''L-Thalamus''), (PInt 41, PStr ''R-Thalamus''),
     (PInt 42, PStr ''L-Pallidum''), (PInt 43, PStr ''R-Pallidum''),
     (PInt 44, PStr ''Corpus callosum''),
     (PInt 45, PStr ''R-Lateral ventricle excluding temporal horn''),
     (PInt 46, PStr ''L-Lateral ventricle excluding temporal horn''),
     (PInt 47, PStr ''R-Lateral ventricle, temporal horn''),
     (PInt 48, PStr ''L-Lateral ventricle, temporal horn''),
     (PInt 49, PStr ''Third ventricle''), (PInt 50, PStr ''L-Precentral gyrus''),
     (PInt 51, PStr ''R-Precentral gyrus''), (PInt 52, PStr ''L-Straight gyrus''),
     (PInt 53, PStr ''R-Straight gyrus''), (PInt 54, PStr ''L-Anterior orbital gyrus''),
     (PInt 55, PStr ''R-Anterior orbital gyrus''),
     (PInt 56, PStr ''L-Inferior frontal gyrus''),
     (PInt 57, PStr ''R-Inferior frontal gyrus''),
     (PInt 58, PStr ''L-Superior frontal gyrus''),
     (PInt 59, PStr ''R-Superior frontal gyrus''), (PInt 60, PStr ''L-Postcentral gyrus''),
     (PInt 61, PStr ''R-Postcentral gyrus''), (PInt 62, PStr ''L-Superior parietal gyrus''),
     (PInt 63, PStr ''R-Superior parietal gyrus''), (PInt 64, PStr ''L-Lingual gyrus''),
     (PInt 65, PStr ''R-Lingual gyrus''), (PInt 66, PStr ''L-Cuneus''),
     (PInt 67, PStr ''R-Cuneus''), (PInt 68, PStr ''L-Medial orbital gyrus''),
     (PInt 69, PStr ''R-Medial orbital gyrus''), (PInt 70, PStr ''L-Lateral orbital gyrus''),
     (PInt 71, PStr ''R-Lateral orbital gyrus''),
     (PInt 72, PStr ''L-Posterior orbital gyrus''),
     (PInt 73, PStr ''R-Posterior orbital gyrus''), (PInt 74, PStr ''L-Substantia nigra''),
     (PInt 75, PStr ''R-Substantia nigra''), (PInt 76, PStr ''L-Subgenual frontal cortex''),
     (PInt 77, PStr ''R-Subgenual frontal cortex''), (PInt 78, PStr ''L-Subcallosal area''),
     (PInt 79, PStr ''R-Subcallosal area''),
     (PInt 80, PStr ''L-Pre-subgenual frontal cortex''),
     (PInt 81, PStr ''R-Pre-subgenual frontal cortex''),
     (PInt 82, PStr ''L-Superior temporal gyrus anterior part''),
     (PInt 83, PStr ''R-Superior temporal gyrus anterior part'')]"

definition clin_pt_fdg_brain_v1_entry :: descriptor where
  "clin_pt_fdg_brain_v1_entry =
    [(''url'', PStr ''https://enhance-pet.s3.eu-central-1.amazonaws.com/moose/clin_fdg_pt_brain_v1_17112023.zip''),
     (''filename'', PStr ''Dataset100_Brain_v1.zip''),
     (''directory'', PStr ''Dataset100_Brain_v1''),
     (''trainer'', PStr ''nnUNetTrainer_2000epochs_NoMirroring''),
     (''voxel_spacing'', PList [PFloat (203125 / 100000), PFloat (20862598419189453 / 10000000000000000), PFloat (20862600803375244 / 10000000000000000)]),
     (''multilabel_prefix'', PStr ''Clin_PT_FDG_brain_''),
     (''configuration'', PStr ''3d_fullres''),
     (''planner'', PStr ''nnUNetPlans''),
     (''organ_indices'', PDict clin_pt_fdg_brain_v1_organ_indices),
     (''limit_fov'', PNone)]"

definition clin_ct_ALPACA_organ_indices :: "(pyval \<times> pyval) list" where
  "clin_ct_ALPACA_organ_indices =
    [(PInt 1, PStr ''heart_ventricle_left''), (PInt 2, PStr ''heart_ventricle_right''),
     (PInt 3, PStr ''pulmonary_artery''), (PInt 4, PStr ''iliac_artery_left''),
     (PInt 5, PStr ''iliac_artery_right''), (PInt 6, PStr ''aorta'')]"

definition clin_ct_ALPACA_entry :: descriptor where
  "clin_ct_ALPACA_entry =
    [(''url'', PStr ''https://enhance-pet.s3.eu-central-1.amazonaws.com/moose/clin_ct_ALPACA.zip''),
     (''filename'', PStr ''Dataset080_Alpaca.zip''),
     (''directory'', PStr ''Dataset080_Alpaca''),
     (''trainer'', PStr ''nnUNetTrainer_2000epochs_NoMirroring''),
     (''voxel_spacing'', PList [PFloat (15 / 10), PFloat (15 / 10), PFloat (15 / 10)]),
     (''multilabel_prefix'', PStr ''Clin_CT_ALPACA_''),
     (''configuration'', PStr ''3d_fullres''),
     (''planner'', PStr ''nnUNetPlans''),
     (''organ_indices'', PDict clin_ct_ALPACA_organ_indices),
     (''limit_fov'', PNone)]"

definition clin_ct_PUMA4_organ_indices :: "(pyval \<times> pyval) list" where
  "clin_ct_PUMA4_organ_indices =
    [(PInt 0, PStr ''background''), (PInt 1, PStr ''Spleen''), (PInt 2, PStr ''Kidneys''),
     (PInt 3, PStr ''Gallbladder''), (PInt 4, PStr ''Liver''), (PInt 5, PStr ''Stomach''),
     (PInt 6, PStr ''Pancreas''), (PInt 7, PStr ''Adrenal Glands''), (PInt 8, PStr ''Lungs''),
     (PInt 9, PStr ''Heart''), (PInt 10, PStr ''Vessels''), (PInt 11, PStr ''Esophagus''),
     (PInt 12, PStr ''Trachea''), (PInt 13, PStr ''Digestive''), (PInt 14, PStr ''Brain''),
     (PInt 15, PStr ''Skeleton''), (PInt 16, PStr ''Muscles''), (PInt 17, PStr ''Bladder''),
     (PInt 18, PStr ''Filler'')]"

definition clin_ct_PUMA4_entry :: descriptor where
  "clin_ct_PUMA4_entry =
    [(''url'', PStr ''https://enhance-pet.s3.eu-central-1.amazonaws.com/moose/clin_ct_PUMA4_06032024.zip''),
     (''filename'', PStr ''Dataset003_PUMA4.zip''),
     (''directory'', PStr ''Dataset003_PUMA4''),
     (''trainer'', PStr ''nnUNetTrainer_2000epochs''),
     (''voxel_spacing'', PList [PInt 4, PInt 4, PInt 4]),
     (''multilabel_prefix'', PStr ''Clin_CT_PUMA4_''),
     (''configuration'', PStr ''3d_fullres''),
     (''planner'', PStr ''nnUNetPlans''),
     (''organ_indices'', PDict clin_ct_PUMA4_organ_indices),
     (''limit_fov'', PNone)]"

definition clin_ct_liver_segments_organ_indices :: "(pyval \<times> pyval) list" where
  "clin_ct_liver_segments_organ_indices =
    [(PInt 1, PStr ''segment_I''), (PInt 2, PStr ''segment_II''),
     (PInt 3, PStr ''segment_III''), (PInt 4, PStr ''segment_IV''),
     (PInt 5, PStr ''segment_V''), (PInt 6, PStr ''segment_VI''),
     (PInt 7, PStr ''segment_VII''), (PInt 8, PStr ''segment_VIII'')]"

definition clin_ct_liver_segments_entry :: descriptor where
  "clin_ct_liver_segments_entry =
    [(''url'', PStr ''https://enhance-pet.s3.eu-central-1.amazonaws.com/moose/clin_ct_liver_segments_10092024.zip''),
     (''filename'', PStr ''Dataset134_Couinaud.zip''),
     (''directory'', PStr ''Dataset134_Couinaud''),
     (''trainer'', PStr ''nnUNetTrainer_2000epochs_NoMirroring''),
     (''voxel_spacing'', PList [PFloat (15 / 10), PFloat (15 / 10), PFloat (15 / 10)]),
     (''multilabel_prefix'', PStr ''Clin_CT_liver_segments_''),
     (''configuration'', PStr ''3d_fullres''),
     (''planner'', PStr ''nnUNetPlans''),
     (''organ_indices'', PDict clin_ct_liver_segments_organ_indices),
     (''limit_fov'', PDict
        [(PStr ''model_to_crop_from'', PStr ''clin_ct_fast_organs''),
         (PStr ''inference_fov_intensities'', PInt 8),
         (PStr ''label_intensity_to_crop_from'', PInt 8),
         (PStr ''largest_component_only'', PBool False)])]"

definition clin_ct_fast_organs_organ_indices :: "(pyval \<times> pyval) list" where
  "clin_ct_fast_organs_organ_indices =
    [(PInt 1, PStr ''adrenal_gland_left''), (PInt 2, PStr ''adrenal_gland_right''),
     (PInt 3, PStr ''bladder''), (PInt 4, PStr ''brain''), (PInt 5, PStr ''gallbladder''),
     (PInt 6, PStr ''kidney_left''), (PInt 7, PStr ''kidney_right''), (PInt 8, PStr ''liver''),
     (PInt 9, PStr ''lung_lower_lobe_left''), (PInt 10, PStr ''lung_lower_lobe_right''),
     (PInt 11, PStr ''lung_middle_lobe_right''), (PInt 12, PStr ''lung_upper_lobe_left''),
     (PInt 13, PStr ''lung_upper_lobe_right''), (PInt 14, PStr ''pancreas''),
     (PInt 15, PStr ''spleen''), (PInt 16, PStr ''stomach''), (PInt 17, PStr ''thyroid_left''),
     (PInt 18, PStr ''thyroid_right''), (PInt 19, PStr ''trachea'')]"

definition clin_ct_fast_organs_entry :: descriptor where
  "clin_ct_fast_organs_entry =
    [(''url'', PStr ''https://enhance-pet.s3.eu-central-1.amazonaws.com/moose/clin_ct_organs_6_02092024.zip''),
     (''filename'', PStr ''Dataset145_Fast_organs.zip''),
     (''directory'', PStr ''Dataset145_Fast_organs''),
     (''trainer'', PStr ''nnUNetTrainer_2000epochs''),
     (''voxel_spacing'', PList [PInt 6, PInt 6, PInt 6]),
     (''multilabel_prefix'', PStr ''Clin_CT_fast_organs_''),
     (''configuration'', PStr ''3d_fullres''),
     (''planner'', PStr ''nnUNetPlans''),
     (''organ_indices'', PDict clin_ct_fast_organs_organ_indices),
     (''limit_fov'', PNone)]"

definition clin_ct_aorta_organ_indices :: "(pyval \<times> pyval) list" where
  "clin_ct_aorta_organ_indices =
    [(PInt 1, PStr ''zone_0''), (PInt 2, PStr ''innominate''), (PInt 3, PStr ''zone_1''),
     (PInt 4, PStr ''left_common_carotid''), (PInt 5, PStr ''zone_2''),
     (PInt 6, PStr ''left_subclavian_artery''), (PInt 7, PStr ''zone_3''),
     (PInt 8, PStr ''zone_4''), (PInt 9, PStr ''zone_5''), (PInt 10, PStr ''zone_6''),
     (PInt 11, PStr ''celiac_artery''), (PInt 12, PStr ''zone_7''), (PInt 13, PStr ''sma''),
     (PInt 14, PStr ''zone_8''), (PInt 15, PStr ''right_renal_artery''),
     (PInt 16, PStr ''left_renal_artery''), (PInt 17, PStr ''zone_9''),
     (PInt 18, PStr ''right_common_iliac_artery''),
     (PInt 19, PStr ''left_common_iliac_artery''),
     (PInt 20, PStr ''right_internal_iliac_artery''),
     (PInt 21, PStr ''left_internal_iliac_artery''),
     (PInt 22, PStr ''right_external_iliac_artery''),
     (PInt 23, PStr ''left_external_iliac_artery'')]"

definition clin_ct_aorta_entry :: descriptor where
  "clin_ct_aorta_entry =
    [(''url'', PStr ''https://enhance-pet.s3.eu-central-1.amazonaws.com/moose/clin_ct_aorta_02092024.zip''),
     (''filename'', PStr ''Dataset321_Aorta.zip''),
     (''directory'', PStr ''Dataset321_Aorta''),
     (''trainer'', PStr ''nnUNetTrainer_2000epochs_NoMirroring''),
     (''voxel_spacing'', PList [PFloat (15 / 10), PFloat (15 / 10), PFloat (15 / 10)]),
     (''multilabel_prefix'', PStr ''Clin_CT_aorta_''),
     (''configuration'', PStr ''3d_fullres''),
     (''planner'', PStr ''nnUNetPlans''),
     (''organ_indices'', PDict clin_ct_aorta_organ_indices),
     (''limit_fov'', PDict
        [(PStr ''model_to_crop_from'', PStr ''clin_ct_fast_cardiac''),
         (PStr ''inference_fov_intensities'', PInt 6),
         (PStr ''label_intensity_to_crop_from'', PInt 6),
         (PStr ''largest_component_only'', PBool False)])]"

definition clin_pt_fdg_tumor_organ_indices :: "(pyval \<times> pyval) list" where
  "clin_pt_fdg_tumor_organ_indices =
    [(PInt 1, PStr ''tumor'')]"

definition clin_pt_fdg_tumor_entry :: descriptor where
  "clin_pt_fdg_tumor_entry =
    [(''organ_indices'', PDict clin_pt_fdg_tumor_organ_indices),
     (''limit_fov'', PNone)]"

definition clin_ct_body_composition_organ_indices :: "(pyval \<times> pyval) list" where
  "clin_ct_body_composition_organ_indices =
    [(PInt 1, PStr ''skeletal_muscle''), (PInt 2, PStr ''subcutaneous_fat''),
     (PInt 3, PStr ''visceral_fat'')]"

definition clin_ct_body_composition_entry :: descriptor where
  "clin_ct_body_composition_entry =
    [(''url'', PStr ''https://enhance-pet.s3.eu-central-1.amazonaws.com/moose/clin_ct_body_composition_05092024.zip''),
     (''filename'', PStr ''Dataset778_Body_composition.zip''),
     (''directory'', PStr ''Dataset778_Body_composition''),
     (''trainer'', PStr ''nnUNetTrainer_2000epochs''),
     (''voxel_spacing'', PList [PFloat (15 / 10), PFloat (15 / 10), PFloat (15 / 10)]),
     (''multilabel_prefix'', PStr ''Clin_CT_body_composition_''),
     (''configuration'', PStr ''3d_fullres''),
     (''planner'', PStr ''nnUNetPlans''),
     (''organ_indices'', PDict clin_ct_body_composition_organ_indices),
     (''limit_fov'', PDict
        [(PStr ''model_to_crop_from'', PStr ''clin_ct_fast_vertebrae''),
         (PStr ''inference_fov_intensities'', PList [PInt 20, PInt 24]),
         (PStr ''label_intensity_to_crop_from'', PInt 22),
         (PStr ''largest_component_only'', PBool True)])]"

definition clin_ct_fast_vertebrae_organ_indices :: "(pyval \<times> pyval) list" where
  "clin_ct_fast_vertebrae_organ_indices =
    [(PInt 1, PStr ''vertebra_C1''), (PInt 2, PStr ''vertebra_C2''),
     (PInt 3, PStr ''vertebra_C3''), (PInt 4, PStr ''vertebra_C4''),
     (PInt 5, PStr ''vertebra_C5''), (PInt 6, PStr ''vertebra_C6''),
     (PInt 7, PStr ''vertebra_C7''), (PInt 8, PStr ''vertebra_T1''),
     (PInt 9, PStr ''vertebra_T2''), (PInt 10, PStr ''vertebra_T3''),
     (PInt 11, PStr ''vertebra_T4''), (PInt 12, PStr ''vertebra_T5''),
     (PInt 13, PStr ''vertebra_T6''), (PInt 14, PStr ''vertebra_T7''),
     (PInt 15, PStr ''vertebra_T8''), (PInt 16, PStr ''vertebra_T9''),
     (PInt 17, PStr ''vertebra_T10''), (PInt 18, PStr ''vertebra_T11''),
     (PInt 19, PStr ''vertebra_T12''), (PInt 20, PStr ''vertebra_L1''),
     (PInt 21, PStr ''vertebra_L2''), (PInt 22, PStr ''vertebra_L3''),
     (PInt 23, PStr ''vertebra_L4''), (PInt 24, PStr ''vertebra_L5''),
     (PInt 25, PStr ''vertebra_L6''), (PInt 26, PStr ''hip_left''),
     (PInt 27, PStr ''hip_right''), (PInt 28, PStr ''sacrum'')]"

definition clin_ct_fast_vertebrae_entry :: descriptor where
  "clin_ct_fast_vertebrae_entry =
    [(''url'', PStr ''https://enhance-pet.s3.eu-central-1.amazonaws.com/moose/clin_ct_vertebrae3_10092024.zip''),
     (''filename'', PStr ''Dataset112_FastVertebrae.zip''),
     (''directory'', PStr ''Dataset112_FastVertebrae''),
     (''trainer'', PStr ''nnUNetTrainer_2000_epochs_DA5NoMirroring''),
     (''voxel_spacing'', PList [PInt 3, PInt 3, PInt 3]),
     (''multilabel_prefix'', PStr ''Clin_CT_fast_vertebrae_''),
     (''configuration'', PStr ''3d_fullres''),
     (''planner'', PStr ''nnUNetPlans''),
     (''organ_indices'', PDict clin_ct_fast_vertebrae_organ_indices),
     (''limit_fov'', PNone)]"

definition clin_ct_fast_cardiac_organ_indices :: "(pyval \<times> pyval) list" where
  "clin_ct_fast_cardiac_organ_indices =
    [(PInt 1, PStr ''heart_myocardium''), (PInt 2, PStr ''heart_atrium_left''),
     (PInt 3, PStr ''heart_atrium_right''), (PInt 4, PStr ''heart_ventricle_left''),
     (PInt 5, PStr ''heart_ventricle_right''), (PInt 6, PStr ''aorta''),
     (PInt 7, PStr ''iliac_artery_left''), (PInt 8, PStr ''iliac_artery_right''),
     (PInt 9, PStr ''iliac_vena_left''), (PInt 10, PStr ''iliac_vena_right''),
     (PInt 11, PStr ''inferior_vena_cava''), (PInt 12, PStr ''portal_splenic_vein''),
     (PInt 13, PStr ''pulmonary_artery'')]"

definition clin_ct_fast_cardiac_entry :: descriptor where
  "clin_ct_fast_cardiac_entry =
    [(''url'', PStr ''https://enhance-pet.s3.eu-central-1.amazonaws.com/moose/clin_ct_cardiac3_10092024.zip''),
     (''filename'', PStr ''Dataset890_FastCardiac.zip''),
     (''directory'', PStr ''Dataset890_FastCardiac''),
     (''trainer'', PStr ''nnUNetTrainer_2000epochs_NoMirroring''),
     (''voxel_spacing'', PList [PInt 3, PInt 3, PInt 3]),
     (''multilabel_prefix'', PStr ''CT_Fast_Cardiac_''),
     (''configuration'', PStr ''3d_fullres''),
     (''planner'', PStr ''nnUNetPlans''),
     (''organ_indices'', PDict clin_ct_fast_cardiac_organ_indices),
     (''limit_fov'', PNone)]"

definition MODELS :: "(string \<times> descriptor) list" where
  "MODELS =
    [(''clin_ct_lungs'', clin_ct_lungs_entry),
     (''clin_ct_organs'', clin_ct_organs_entry),
     (''preclin_mr_all'', preclin_mr_all_entry),
     (''clin_ct_body'', clin_ct_body_entry),
     (''clin_ct_ribs'', clin_ct_ribs_entry),
     (''clin_ct_muscles'', clin_ct_muscles_entry),
     (''clin_ct_peripheral_bones'', clin_ct_peripheral_bones_entry),
     (''clin_ct_fat'', clin_ct_fat_entry),
     (''clin_ct_vertebrae'', clin_ct_vertebrae_entry),
     (''clin_ct_cardiac'', clin_ct_cardiac_entry),
     (''clin_ct_digestive'', clin_ct_digestive_entry),
     (''preclin_ct_legs'', preclin_ct_legs_entry),
     (''clin_ct_all_bones_v1'', clin_ct_all_bones_v1_entry),
     (''clin_ct_PUMA'', clin_ct_PUMA_entry),
     (''clin_pt_fdg_brain_v1'', clin_pt_fdg_brain_v1_entry),
     (''clin_ct_ALPACA'', clin_ct_ALPACA_entry),
     (''clin_ct_PUMA4'', clin_ct_PUMA4_entry),
     (''clin_ct_liver_segments'', clin_ct_liver_segments_entry),
     (''clin_ct_fast_organs'', clin_ct_fast_organs_entry),
     (''clin_ct_aorta'', clin_ct_aorta_entry),
     (''clin_pt_fdg_tumor'', clin_pt_fdg_tumor_entry),
     (''clin_ct_body_composition'', clin_ct_body_composition_entry),
     (''clin_ct_fast_vertebrae'', clin_ct_fast_vertebrae_entry),
     (''clin_ct_fast_cardiac'', clin_ct_fast_cardiac_entry)]"

definition AVAILABLE_MODELS :: "string list" where
  "AVAILABLE_MODELS = map fst MODELS"

text \<open>
  \<^verbatim>\<open>d[key]\<close> on a descriptor: a missing key raises \<^verbatim>\<open>KeyError\<close>, which is
  \<open>None\<close> here; a key whose value is \<^verbatim>\<open>None\<close> gives \<open>Some PNone\<close>.
\<close>

definition field :: "descriptor \<Rightarrow> string \<Rightarrow> pyval option" where
  "field d key = map_of d key"

definition has_key :: "descriptor \<Rightarrow> string \<Rightarrow> bool" where
  "has_key d key = (key \<in> set (map fst d))"

text \<open>
  The crop dependency a descriptor declares: the \<^verbatim>\<open>model_to_crop_from\<close> of its
  \<^verbatim>\<open>limit_fov\<close> dictionary, \<open>None\<close> when \<^verbatim>\<open>limit_fov\<close> is \<^verbatim>\<open>None\<close> or absent.
\<close>

definition crop_source :: "descriptor \<Rightarrow> string option" where
  "crop_source d =
     (case field d ''limit_fov'' of
        Some (PDict lf) \<Rightarrow>
          (case map_of lf (PStr ''model_to_crop_from'') of
             Some (PStr m) \<Rightarrow> Some m
           | _ \<Rightarrow> None)
      | _ \<Rightarrow> None)"

definition limit_fov_is_None :: "descriptor \<Rightarrow> bool" where
  "limit_fov_is_None d = (field d ''limit_fov'' = Some PNone)"

section \<open>The world a run acts on\<close>

text \<open>
  What the program does beyond returning values is recorded in order: lines printed,
  log records, shell commands handed to \<^verbatim>\<open>subprocess.run\<close> (with the environment
  passed), the spinner of \<^verbatim>\<open>halo\<close>, the redirection of the standard output, and
  calls into modules of the package that are not among the sources.
\<close>

datatype event =
    Print string
  | Log_info string
  | Log_error string
  | Run_shell string "(string \<times> string) list"
  | Halo_start string
  | Halo_succeed string
  | Stdout_to_devnull
  | Stdout_restored
  | Call string

text \<open>
  The world: the module global \<^verbatim>\<open>resources.MODELS\<close>, the process environment
  \<^verbatim>\<open>os.environ\<close>, the file system (of a type \<open>'fs\<close> left open: only the operating
  system, the external engine and the modules that are not among the sources act on it),
  and the events so far.
\<close>

record 'fs world =
  registry :: "(string \<times> descriptor) list"
  environ :: "(string \<times> string) list"
  files :: "'fs"
  trace :: "event list"

text \<open>
  A statement sequence: from a world to a value or an exception, and the world it leaves.
  An exception ends the sequence and keeps the effects made before it.
\<close>

type_synonym ('a, 'fs) prog = "'fs world \<Rightarrow> (py_error + 'a) \<times> 'fs world"

definition returnE :: "'a \<Rightarrow> ('a, 'fs) prog" where
  "returnE x s = (Inr x, s)"

definition raiseE :: "py_error \<Rightarrow> ('a, 'fs) prog" where
  "raiseE e s = (Inl e, s)"

definition bindE :: "('a, 'fs) prog \<Rightarrow> ('a \<Rightarrow> ('b, 'fs) prog) \<Rightarrow> ('b, 'fs) prog" where
  "bindE m f s = (case m s of (Inl e, s') \<Rightarrow> (Inl e, s') | (Inr x, s') \<Rightarrow> f x s')"

definition emit :: "event \<Rightarrow> (unit, 'fs) prog" where
  "emit e s = (Inr (), s\<lparr>trace := trace s @ [e]\<rparr>)"

definition emits :: "event list \<Rightarrow> (unit, 'fs) prog" where
  "emits es s = (Inr (), s\<lparr>trace := trace s @ es\<rparr>)"

text \<open>
  A call of a function that is not among the sources: the function is a parameter acting
  on the file system, and the call is recorded under the function's name.
\<close>

definition call :: "string \<Rightarrow> ('fs \<Rightarrow> (py_error + 'a) \<times> 'fs) \<Rightarrow> ('a, 'fs) prog" where
  "call name f s =
     (case f (files s) of (r, fs') \<Rightarrow> (r, s\<lparr>files := fs', trace := trace s @ [Call name]\<rparr>))"

text \<open>The shell commands run so far, in order.\<close>

fun shell_calls :: "event list \<Rightarrow> string list" where
  "shell_calls [] = []"
| "shell_calls (Run_shell cmd env # es) = cmd # shell_calls es"
| "shell_calls (e # es) = shell_calls es"

section \<open>resources.py: expected_modality\<close>

definition expected_modality_models :: "(string \<times> (string \<times> string) list) list" where
  "expected_modality_models =
    [(''clin_ct_lungs'',
       [(''Imaging'', ''Clinical''), (''Modality'', ''CT''), (''Tissue of interest'', ''Lungs'')]),
     (''clin_ct_organs'',
       [(''Imaging'', ''Clinical''), (''Modality'', ''CT''), (''Tissue of interest'', ''Organs'')]),
     (''clin_ct_body'',
       [(''Imaging'', ''Clinical''), (''Modality'', ''CT''), (''Tissue of interest'', ''Body, Arms, legs, head'')]),
     (''preclin_mr_all'',
       [(''Imaging'', ''Pre-clinical''), (''Modality'', ''MR''), (''Tissue of interest'', ''All regions'')]),
     (''clin_ct_ribs'',
       [(''Imaging'', ''Clinical''), (''Modality'', ''CT''), (''Tissue of interest'', ''Ribs'')]),
     (''clin_ct_muscles'',
       [(''Imaging'', ''Clinical''), (''Modality'', ''CT''), (''Tissue of interest'', ''Muscles'')]),
     (''clin_ct_peripheral_bones'',
       [(''Imaging'', ''Clinical''), (''Modality'', ''CT''), (''Tissue of interest'', ''Peripheral Bones'')]),
     (''clin_ct_fat'',
       [(''Imaging'', ''Clinical''), (''Modality'', ''CT''), (''Tissue of interest'', ''Fat'')]),
     (''clin_ct_vertebrae'',
       [(''Imaging'', ''Clinical''), (''Modality'', ''CT''), (''Tissue of interest'', ''Vertebrae'')]),
     (''clin_ct_cardiac'',
       [(''Imaging'', ''Clinical''), (''Modality'', ''CT''), (''Tissue of interest'', ''Cardiac'')]),
     (''clin_ct_digestive'',
       [(''Imaging'', ''Clinical''), (''Modality'', ''CT''), (''Tissue of interest'', ''Digestive'')]),
     (''preclin_ct_legs'',
       [(''Imaging'', ''Pre-clinical''), (''Modality'', ''CT''), (''Tissue of interest'', ''Legs'')]),
     (''clin_ct_all_bones_v1'',
       [(''Imaging'', ''Clinical''), (''Modality'', ''CT''), (''Tissue of interest'', ''All bones'')]),
     (''clin_ct_PUMA'',
       [(''Imaging'', ''Clinical''), (''Modality'', ''CT''), (''Tissue of interest'', ''PUMA tissues'')]),
     (''clin_pt_fdg_brain_v1'',
       [(''Imaging'', ''Clinical''), (''Modality'', ''PT''), (''Tissue of interest'', ''Brain regions'')]),
     (''clin_ct_ALPACA'',
       [(''Imaging'', ''Clinical''), (''Modality'', ''CT''), (''Tissue of interest'', ''ALPACA tissues'')]),
     (''clin_ct_PUMA4'',
       [(''Imaging'', ''Clinical''), (''Modality'', ''CT''), (''Tissue of interest'', ''PUMA tissues'')]),
     (''clin_ct_liver_segments'',
       [(''Imaging'', ''Clinical''), (''Modality'', ''CT''), (''Tissue of interest'', ''Liver segments'')]),
     (''clin_ct_fast_organs'',
       [(''Imaging'', ''Clinical''), (''Modality'', ''CT''), (''Tissue of interest'', ''Organs'')]),
     (''clin_ct_aorta'',
       [(''Imaging'', ''Clinical''), (''Modality'', ''CT''), (''Tissue of interest'', ''Aorta segments'')]),
     (''clin_ct_body_composition'',
       [(''Imaging'', ''Clinical''), (''Modality'', ''CT''), (''Tissue of interest'', ''Body composition on the L3 vertebra region'')])]"

text \<open>
  \<^verbatim>\<open>model["Model name"] = model_name\<close> appends the key (no entry of the table has
  it); an unknown name logs an error and returns the error dictionary.
\<close>

definition expected_modality :: "string \<Rightarrow> ((string \<times> string) list, 'fs) prog" where
  "expected_modality model_name =
     (case map_of expected_modality_models model_name of
        Some model \<Rightarrow> returnE (AList.update ''Model name'' model_name model)
      | None \<Rightarrow>
          bindE (emit (Log_error '' Requested model is not available. Please check the model name.''))
            (\<lambda>_. returnE [(''Error'', ''Requested model is not available. Please check the model name.'')]))"

section \<open>predict.py\<close>

subsection \<open>Formatting an integer in an f-string\<close>

definition digit_char :: "nat \<Rightarrow> char" where
  "digit_char d = ''0123456789'' ! d"

fun digits_of :: "nat \<Rightarrow> string" where
  "digits_of n = (if n < 10 then [digit_char n] else digits_of (n div 10) @ [digit_char (n mod 10)])"

declare digits_of.simps [simp del]

definition str_int :: "int \<Rightarrow> string" where
  "str_int i = (if i < 0 then CHR ''-'' # digits_of (nat (- i)) else digits_of (nat i))"

subsection \<open>map_model_name_to_task_number\<close>

definition map_model_name_to_task_number :: "string \<Rightarrow> py_error + int" where
  "map_model_name_to_task_number model_name =
     (if model_name = ''clin_ct_bones'' then Inr 201
      else if model_name = ''clin_ct_ribs'' then Inr 202
      else if model_name = ''clin_ct_vertebrae'' then Inr 203
      else if model_name = ''clin_ct_muscles'' then Inr 204
      else if model_name = ''clin_ct_lungs'' then Inr 205
      else if model_name = ''clin_ct_fat'' then Inr 206
      else if model_name = ''clin_ct_vessels'' then Inr 207
      else if model_name = ''clin_ct_organs'' then Inr 208
      else if model_name = ''clin_pt_fdg_tumor'' then Inr 209
      else if model_name = ''clin_ct_all'' then Inr 210
      else if model_name = ''clin_fdg_pt_ct_all'' then Inr 211
      else if model_name = ''preclin_mr_all'' then Inr 212
      else Inl (Exception (''Error: The model name '' @ [CHR 0x27] @ model_name @ [CHR 0x27]
                           @ '' is not valid.'')))"

subsection \<open>predict\<close>

text \<open>
  The shell behind \<^verbatim>\<open>subprocess.run(cmd, shell=True, env=os.environ, ...)\<close>: given
  the command and the environment it acts on the file system and ends with an exit code.
  \<^verbatim>\<open>subprocess.run\<close> is called without \<^verbatim>\<open>check=True\<close>, so no exit code raises,
  and the \<^verbatim>\<open>CompletedProcess\<close> it returns is not bound to a name.
\<close>

type_synonym 'fs shell = "string \<Rightarrow> (string \<times> string) list \<Rightarrow> 'fs \<Rightarrow> int \<times> 'fs"

definition subprocess_run :: "'fs shell \<Rightarrow> string \<Rightarrow> (int, 'fs) prog" where
  "subprocess_run sh cmd s =
     (case sh cmd (environ s) (files s) of
        (returncode, fs') \<Rightarrow>
          (Inr returncode, s\<lparr>files := fs', trace := trace s @ [Run_shell cmd (environ s)]\<rparr>))"

definition predict_command :: "string \<Rightarrow> string \<Rightarrow> int \<Rightarrow> string" where
  "predict_command input_dir output_dir task_number =
     ''nnUNet_predict -i '' @ input_dir @ '' -o '' @ output_dir @ '' -t '' @ str_int task_number
       @ '' -m 3d_fullres -f all''"

text \<open>
  \<open>results_folder\<close> stands for \<^verbatim>\<open>constants.NNUNET_RESULTS_FOLDER\<close>, a constant of a
  module that is not among the sources. The function has no \<^verbatim>\<open>return\<close> statement:
  its value is \<^verbatim>\<open>None\<close>, the unit value here.
\<close>

definition predict :: "'fs shell \<Rightarrow> string \<Rightarrow> string \<Rightarrow> string \<Rightarrow> string \<Rightarrow> (unit, 'fs) prog" where
  "predict sh results_folder model_name input_dir output_dir =
     (case map_model_name_to_task_number model_name of
        Inl e \<Rightarrow> raiseE e
      | Inr task_number \<Rightarrow>
          bindE (\<lambda>s. (Inr (), s\<lparr>environ := AList.update ''RESULTS_FOLDER'' results_folder (environ s)\<rparr>))
            (\<lambda>_. bindE (subprocess_run sh (predict_command input_dir output_dir task_number))
              (\<lambda>_. returnE ())))"

subsection \<open>run_prediction\<close>

text \<open>The \<^verbatim>\<open>for\<close> loop over \<^verbatim>\<open>zip(input_dirs, output_dirs)\<close>.\<close>

fun predict_each :: "'fs shell \<Rightarrow> string \<Rightarrow> string \<Rightarrow> (string \<times> string) list \<Rightarrow> (unit, 'fs) prog" where
  "predict_each sh results_folder model_name [] = returnE ()"
| "predict_each sh results_folder model_name ((input_dir, output_dir) # pairs) =
     bindE (predict sh results_folder model_name input_dir output_dir)
       (\<lambda>_. predict_each sh results_folder model_name pairs)"

text \<open>
  The spinner is created but never started; \<^verbatim>\<open>succeed\<close> prints its closing line.
\<close>

definition run_prediction ::
    "'fs shell \<Rightarrow> string \<Rightarrow> string \<Rightarrow> string list \<Rightarrow> string list \<Rightarrow> (unit, 'fs) prog" where
  "run_prediction sh results_folder model_name input_dirs output_dirs =
     bindE (predict_each sh results_folder model_name (zip input_dirs output_dirs))
       (\<lambda>_. emit (Halo_succeed ''Prediction complete''))"

section \<open>moosez.py\<close>

subsection \<open>The command line\<close>

text \<open>The \<^verbatim>\<open>choices\<close> of the \<^verbatim>\<open>--model_name\<close> argument of \<^verbatim>\<open>main\<close>.\<close>

definition model_name_choices :: "string list" where
  "model_name_choices =
     [''clin_ct_bones'', ''clin_ct_ribs'', ''clin_ct_vertebrae'', ''clin_ct_muscles'',
      ''clin_ct_lungs'', ''clin_ct_fat'', ''clin_ct_vessels'', ''clin_ct_organs'',
      ''clin_pt_fdg_tumor'', ''clin_ct_all'', ''clin_fdg_pt_ct_all'', ''preclin_mr_all'']"

text \<open>
  Both arguments are required; \<^verbatim>\<open>parse_args\<close> leaves with \<^verbatim>\<open>SystemExit(2)\<close> when
  the model name is not one of the choices. The command line is given here by the values
  of its two arguments.
\<close>

definition parse_args :: "string \<Rightarrow> string \<Rightarrow> (string \<times> string, 'fs) prog" where
  "parse_args main_directory model_name =
     (if model_name \<in> set model_name_choices then returnE (main_directory, model_name)
      else raiseE (SystemExit 2))"

subsection \<open>What main calls outside the sources\<close>

text \<open>
  \<^verbatim>\<open>main\<close> calls the modules \<^verbatim>\<open>display\<close>, \<^verbatim>\<open>download\<close>,
  \<^verbatim>\<open>file_utilities\<close> and \<^verbatim>\<open>input_validation\<close> of the package and the
  \<^verbatim>\<open>os\<close> module. None of them is among the sources, so each function is a parameter:
  given its arguments it acts on the file system and returns a value or raises. The type
  \<open>'m\<close> is the type of what \<^verbatim>\<open>display.expected_modality\<close> returns, which \<^verbatim>\<open>main\<close>
  only passes on.
\<close>

record ('fs, 'm) externals =
  os_path_abspath :: "string \<Rightarrow> string"
  os_listdir :: "string \<Rightarrow> 'fs \<Rightarrow> (py_error + string list) \<times> 'fs"
  os_path_isdir :: "string \<Rightarrow> 'fs \<Rightarrow> bool"
  display_logo :: "'fs \<Rightarrow> (py_error + unit) \<times> 'fs"
  display_citation :: "'fs \<Rightarrow> (py_error + unit) \<times> 'fs"
  display_expectations :: "string \<Rightarrow> 'fs \<Rightarrow> (py_error + unit) \<times> 'fs"
  display_expected_modality :: "string \<Rightarrow> 'fs \<Rightarrow> (py_error + 'm) \<times> 'fs"
  download_model :: "string \<Rightarrow> string \<Rightarrow> 'fs \<Rightarrow> (py_error + unit) \<times> 'fs"
  nnunet_folder_structure :: "'fs \<Rightarrow> (py_error + string) \<times> 'fs"
  moose_folder_structure ::
    "string \<Rightarrow> string \<Rightarrow> 'm \<Rightarrow> 'fs \<Rightarrow> (py_error + string \<times> string list \<times> string list) \<times> 'fs"
  organise_files_by_modality :: "string list \<Rightarrow> 'm \<Rightarrow> string \<Rightarrow> 'fs \<Rightarrow> (py_error + unit) \<times> 'fs"
  select_moose_compliant_subjects :: "string list \<Rightarrow> 'm \<Rightarrow> 'fs \<Rightarrow> (py_error + string list) \<times> 'fs"
  make_nnunet_compatible :: "string \<Rightarrow> 'fs \<Rightarrow> (py_error + unit) \<times> 'fs"

text \<open>\<^verbatim>\<open>os.path.join\<close> of two components on a POSIX system.\<close>

definition os_path_join :: "string \<Rightarrow> string \<Rightarrow> string" where
  "os_path_join a b =
     (if b \<noteq> [] \<and> hd b = CHR ''/'' then b
      else if a = [] \<or> last a = CHR ''/'' then a @ b
      else a @ ''/'' @ b)"

subsection \<open>The sections of main\<close>

text \<open>The banner of the log and the note printed before the expectations (lines 55 to 74).\<close>

definition main_start :: "('fs, 'm) externals \<Rightarrow> string \<Rightarrow> string \<Rightarrow> (unit, 'fs) prog" where
  "main_start ex parent_folder model_name =
     bindE (call ''display.logo'' (display_logo ex))
       (\<lambda>_. bindE (call ''display.citation'' (display_citation ex))
       (\<lambda>_. bindE (emits
          [Log_info (replicate 100 CHR ''*''),
           Log_info (replicate 37 CHR '' '' @ ''STARTING MOOSE-Z V.2.0.0'' @ replicate 39 CHR '' ''),
           Log_info (replicate 100 CHR ''*''),
           Log_info '' '',
           Log_info (''- Main directory: '' @ parent_folder),
           Log_info (''- Model name: '' @ model_name),
           Log_info '' '',
           Print '' '', Print '' NOTE:'', Print '' ''])
       (\<lambda>_. call ''display.expectations'' (display_expectations ex model_name))))"

text \<open>Downloading the model (lines 76 to 81).\<close>

definition main_download :: "('fs, 'm) externals \<Rightarrow> string \<Rightarrow> (unit, 'fs) prog" where
  "main_download ex model_name =
     bindE (emits [Print '''', Print '' MODEL DOWNLOAD:'', Print ''''])
       (\<lambda>_. bindE (call ''file_utilities.nnunet_folder_structure'' (nnunet_folder_structure ex))
       (\<lambda>model_path. call ''download.model'' (download_model ex model_name model_path)))"

text \<open>
  The expected modalities, asked with the standard output sent to the null device
  (lines 83 to 93). An exception of the call leaves the output redirected.
\<close>

definition main_modalities :: "('fs, 'm) externals \<Rightarrow> string \<Rightarrow> ('m, 'fs) prog" where
  "main_modalities ex model_name =
     bindE (emit Stdout_to_devnull)
       (\<lambda>_. bindE (call ''display.expected_modality'' (display_expected_modality ex model_name))
       (\<lambda>modalities. bindE (emit Stdout_restored)
       (\<lambda>_. returnE modalities)))"

text \<open>Setting up the directory structure (lines 95 to 105).\<close>

definition main_directories ::
    "('fs, 'm) externals \<Rightarrow> string \<Rightarrow> string \<Rightarrow> 'm \<Rightarrow> (string \<times> string list \<times> string list, 'fs) prog" where
  "main_directories ex parent_folder model_name modalities =
     bindE (emits
        [Print '''', Print '' SETTING UP MOOSE-Z DIRECTORY FOR BATCH PROCESSING:'', Print '''',
         Log_info '' '', Log_info '' SETTING UP MOOSE-Z DIRECTORY FOR BATCH PROCESSING:'',
         Log_info '' ''])
       (\<lambda>_. bindE (call ''file_utilities.moose_folder_structure''
                      (moose_folder_structure ex parent_folder model_name modalities))
       (\<lambda>(moose_dir, input_dirs, output_dirs). bindE (emits
          [Print ('' MOOSE directory for the current run set at: '' @ moose_dir),
           Log_info ('' MOOSE directory for the current run set at: '' @ moose_dir)])
       (\<lambda>_. returnE (moose_dir, input_dirs, output_dirs))))"

text \<open>The loop that makes every input directory nnUNet compatible (lines 129 and 130).\<close>

fun make_each_compatible :: "('fs, 'm) externals \<Rightarrow> string list \<Rightarrow> (unit, 'fs) prog" where
  "make_each_compatible ex [] = returnE ()"
| "make_each_compatible ex (input_dir # input_dirs) =
     bindE (call ''input_validation.make_nnunet_compatible'' (make_nnunet_compatible ex input_dir))
       (\<lambda>_. make_each_compatible ex input_dirs)"

text \<open>
  Standardising the input (lines 107 to 131): the subdirectories of the parent folder
  without the MOOSE directory, the compliant ones among them organised by modality, and
  every input directory made compatible.
\<close>

definition list_subjects :: "('fs, 'm) externals \<Rightarrow> string \<Rightarrow> (string list, 'fs) prog" where
  "list_subjects ex parent_folder =
     bindE (call ''os.listdir'' (os_listdir ex parent_folder))
       (\<lambda>names s. (Inr (map (os_path_join parent_folder)
                           (filter (\<lambda>d. os_path_isdir ex (os_path_join parent_folder d) (files s)) names)),
                    s))"

definition main_standardize ::
    "('fs, 'm) externals \<Rightarrow> string \<Rightarrow> 'm \<Rightarrow> string \<Rightarrow> string list \<Rightarrow> (unit, 'fs) prog" where
  "main_standardize ex parent_folder modalities moose_dir input_dirs =
     bindE (emits
        [Print '''', Print '' STANDARDIZING INPUT DATA:'', Print '''',
         Log_info '' '', Log_info '' STANDARDIZING INPUT DATA:'', Log_info '' ''])
       (\<lambda>_. bindE (list_subjects ex parent_folder)
       (\<lambda>subjects0.
          let subjects = (if moose_dir \<in> set subjects0 then remove1 moose_dir subjects0 else subjects0)
          in bindE (call ''input_validation.select_moose_compliant_subjects''
                      (select_moose_compliant_subjects ex subjects modalities))
       (\<lambda>moose_compliant_subjects.
          bindE (call ''file_utilities.organise_files_by_modality''
                      (organise_files_by_modality ex moose_compliant_subjects modalities moose_dir))
       (\<lambda>_. bindE (emit (Halo_start ''Preparing data for prediction''))
       (\<lambda>_. bindE (make_each_compatible ex input_dirs)
       (\<lambda>_. emit (Halo_succeed ''Data ready for prediction'')))))))"

text \<open>
  The last section (lines 134 to 143): three lines printed, three log records, and two
  comments with no statement under them.
\<close>

definition main_run_prediction :: "(unit, 'fs) prog" where
  "main_run_prediction =
     emits [Print '''', Print '' RUNNING PREDICTION:'', Print '''',
            Log_info '' '', Log_info '' RUNNING PREDICTION:'', Log_info '' '']"

text \<open>Everything before the last section, returning the directories of the run.\<close>

definition main_prepare ::
    "('fs, 'm) externals \<Rightarrow> string \<Rightarrow> string \<Rightarrow> (string \<times> string list \<times> string list, 'fs) prog" where
  "main_prepare ex main_directory model_name0 =
     bindE (parse_args main_directory model_name0)
       (\<lambda>(args_main_directory, model_name).
          let parent_folder = os_path_abspath ex args_main_directory
          in bindE (main_start ex parent_folder model_name)
       (\<lambda>_. bindE (main_download ex model_name)
       (\<lambda>_. bindE (main_modalities ex model_name)
       (\<lambda>modalities. bindE (main_directories ex parent_folder model_name modalities)
       (\<lambda>(moose_dir, input_dirs, output_dirs).
          bindE (main_standardize ex parent_folder modalities moose_dir input_dirs)
       (\<lambda>_. returnE (moose_dir, input_dirs, output_dirs)))))))"

definition main :: "('fs, 'm) externals \<Rightarrow> string \<Rightarrow> string \<Rightarrow> (unit, 'fs) prog" where
  "main ex main_directory model_name =
     bindE (main_prepare ex main_directory model_name) (\<lambda>_. main_run_prediction)"

section \<open>The operations of the program, run on a world\<close>

text \<open>
  The five operations of the sources that take a model name, each run on a world and
  ending with the value returned or the exception raised.
\<close>

datatype operation =
    Op_main string string
  | Op_predict string string string
  | Op_run_prediction string "string list" "string list"
  | Op_map_model_name_to_task_number string
  | Op_expected_modality string

datatype outcome =
    Returned_None
  | Returned_int int
  | Returned_dict "(string \<times> string) list"

definition run_operation ::
    "'fs shell \<Rightarrow> string \<Rightarrow> ('fs, 'm) externals \<Rightarrow> operation \<Rightarrow> (outcome, 'fs) prog" where
  "run_operation sh results_folder ex op =
     (case op of
        Op_main main_directory model_name \<Rightarrow>
          bindE (main ex main_directory model_name) (\<lambda>_. returnE Returned_None)
      | Op_predict model_name input_dir output_dir \<Rightarrow>
          bindE (predict sh results_folder model_name input_dir output_dir) (\<lambda>_. returnE Returned_None)
      | Op_run_prediction model_name input_dirs output_dirs \<Rightarrow>
          bindE (run_prediction sh results_folder model_name input_dirs output_dirs)
            (\<lambda>_. returnE Returned_None)
      | Op_map_model_name_to_task_number model_name \<Rightarrow>
          (case map_model_name_to_task_number model_name of
             Inl e \<Rightarrow> raiseE e
           | Inr task_number \<Rightarrow> returnE (Returned_int task_number))
      | Op_expected_modality model_name \<Rightarrow>
          bindE (expected_modality model_name) (\<lambda>d. returnE (Returned_dict d)))"

text \<open>
  Two registries differ only in their \<^verbatim>\<open>limit_fov\<close> values when they are equal once
  every \<^verbatim>\<open>limit_fov\<close> value is replaced by \<^verbatim>\<open>None\<close>; two worlds differ only there
  when the rest of them is equal.
\<close>

definition mask_limit_fov :: "(string \<times> descriptor) list \<Rightarrow> (string \<times> descriptor) list" where
  "mask_limit_fov M =
     map (\<lambda>(name, d). (name, map (\<lambda>(key, v). if key = ''limit_fov'' then (key, PNone) else (key, v)) d)) M"

definition same_except_limit_fov :: "'fs world \<Rightarrow> 'fs world \<Rightarrow> bool" where
  "same_except_limit_fov s1 s2 =
     (mask_limit_fov (registry s1) = mask_limit_fov (registry s2) \<and>
      environ s1 = environ s2 \<and> files s1 = files s2 \<and> trace s1 = trace s2)"

text \<open>A program that neither reads nor writes the registry.\<close>

definition registry_free :: "('a, 'fs) prog \<Rightarrow> bool" where
  "registry_free p = (\<forall>s r. p (s\<lparr>registry := r\<rparr>) = (fst (p s), (snd (p s))\<lparr>registry := r\<rparr>))"

text \<open>A program that runs no shell command.\<close>

definition shell_free :: "('a, 'fs) prog \<Rightarrow> bool" where
  "shell_free p = (\<forall>s. shell_calls (trace (snd (p s))) = shell_calls (trace s))"

text \<open>A shell that acts on the file system as \<open>sh\<close> does and ends with other exit codes.\<close>

definition with_exit_code ::
    "(string \<Rightarrow> (string \<times> string) list \<Rightarrow> 'fs \<Rightarrow> int) \<Rightarrow> 'fs shell \<Rightarrow> 'fs shell" where
  "with_exit_code returncode sh cmd env fs = (returncode cmd env fs, snd (sh cmd env fs))"

section \<open>The command the specification describes\<close>

text \<open>
  The configuration name a registry declares for a model, and the command whose
  configuration argument is that name: the reading of the specification that the code is
  compared with.
\<close>

definition registry_configuration :: "(string \<times> descriptor) list \<Rightarrow> string \<Rightarrow> string option" where
  "registry_configuration M model_name =
     (case map_of M model_name of
        Some d \<Rightarrow> (case field d ''configuration'' of Some (PStr c) \<Rightarrow> Some c | _ \<Rightarrow> None)
      | None \<Rightarrow> None)"

definition spec_predict_command ::
    "(string \<times> descriptor) list \<Rightarrow> string \<Rightarrow> string \<Rightarrow> string \<Rightarrow> string option" where
  "spec_predict_command M model_name input_dir output_dir =
     (case (map_model_name_to_task_number model_name, registry_configuration M model_name) of
        (Inr task_number, Some c) \<Rightarrow>
          Some (''nnUNet_predict -i '' @ input_dir @ '' -o '' @ output_dir @ '' -t ''
                @ str_int task_number @ '' -m '' @ c @ '' -f all'')
      | _ \<Rightarrow> None)"

section \<open>A small concrete setting\<close>

text \<open>
  Concrete inputs for the closed statements below. The file system is the list of the
  commands and calls that touched it; the shell ends every command with a given exit
  code; the parent folder \<^verbatim>\<open>/data\<close> holds two subjects and the MOOSE directory.
\<close>

definition exit_shell :: "int \<Rightarrow> string list shell" where
  "exit_shell returncode cmd env fs = (returncode, fs @ [cmd])"

definition start_world :: "string list world" where
  "start_world = \<lparr>registry = MODELS, environ = [(''HOME'', ''/root'')], files = [], trace = []\<rparr>"

definition two_subjects :: "(string list, string list) externals" where
  "two_subjects =
     \<lparr>os_path_abspath = (\<lambda>p. p),
      os_listdir = (\<lambda>p fs. (Inr [''S1'', ''S2'', ''moose''], fs)),
      os_path_isdir = (\<lambda>p fs. True),
      display_logo = (\<lambda>fs. (Inr (), fs)),
      display_citation = (\<lambda>fs. (Inr (), fs)),
      display_expectations = (\<lambda>model_name fs. (Inr (), fs)),
      display_expected_modality = (\<lambda>model_name fs. (Inr [''CT''], fs)),
      download_model = (\<lambda>model_name model_path fs. (Inr (), fs @ [''download '' @ model_name])),
      nnunet_folder_structure = (\<lambda>fs. (Inr ''/models'', fs)),
      moose_folder_structure = (\<lambda>parent_folder model_name modalities fs.
         (Inr (''/data/moose'', [''/data/moose/in/S1'', ''/data/moose/in/S2''],
               [''/data/moose/out/S1'', ''/data/moose/out/S2'']), fs @ [''mkdir /data/moose''])),
      organise_files_by_modality = (\<lambda>subjects modalities moose_dir fs. (Inr (), fs @ map ((@) ''organise '') subjects)),
      select_moose_compliant_subjects = (\<lambda>subjects modalities fs. (Inr subjects, fs)),
      make_nnunet_compatible = (\<lambda>input_dir fs. (Inr (), fs @ [''rename '' @ input_dir]))\<rparr>"

section \<open>Properties of the registry\<close>

lemmas entry_defs =
  clin_ct_lungs_entry_def clin_ct_organs_entry_def preclin_mr_all_entry_def
  clin_ct_body_entry_def clin_ct_ribs_entry_def clin_ct_muscles_entry_def
  clin_ct_peripheral_bones_entry_def clin_ct_fat_entry_def clin_ct_vertebrae_entry_def
  clin_ct_cardiac_entry_def clin_ct_digestive_entry_def preclin_ct_legs_entry_def
  clin_ct_all_bones_v1_entry_def clin_ct_PUMA_entry_def clin_pt_fdg_brain_v1_entry_def
  clin_ct_ALPACA_entry_def clin_ct_PUMA4_entry_def clin_ct_liver_segments_entry_def
  clin_ct_fast_organs_entry_def clin_ct_aorta_entry_def clin_pt_fdg_tumor_entry_def
  clin_ct_body_composition_entry_def clin_ct_fast_vertebrae_entry_def
  clin_ct_fast_cardiac_entry_def

lemma MODELS_keys_distinct: "distinct (map fst MODELS)"
  by (simp add: MODELS_def)

lemma MODELS_keys:
  "AVAILABLE_MODELS =
     [''clin_ct_lungs'', ''clin_ct_organs'', ''preclin_mr_all'', ''clin_ct_body'', ''clin_ct_ribs'',
      ''clin_ct_muscles'', ''clin_ct_peripheral_bones'', ''clin_ct_fat'', ''clin_ct_vertebrae'',
      ''clin_ct_cardiac'', ''clin_ct_digestive'', ''preclin_ct_legs'', ''clin_ct_all_bones_v1'',
      ''clin_ct_PUMA'', ''clin_pt_fdg_brain_v1'', ''clin_ct_ALPACA'', ''clin_ct_PUMA4'',
      ''clin_ct_liver_segments'', ''clin_ct_fast_organs'', ''clin_ct_aorta'', ''clin_pt_fdg_tumor'',
      ''clin_ct_body_composition'', ''clin_ct_fast_vertebrae'', ''clin_ct_fast_cardiac'']"
  by (simp add: AVAILABLE_MODELS_def MODELS_def)

text \<open>
  Claim C4. The registry holds 24 descriptors, and every one of them has the keys
  \<^verbatim>\<open>organ_indices\<close> and \<^verbatim>\<open>limit_fov\<close>. The keys \<^verbatim>\<open>url\<close> and
  \<^verbatim>\<open>voxel_spacing\<close> are in every descriptor but one: the descriptor of
  \<^verbatim>\<open>clin_pt_fdg_tumor\<close> has neither, so that reading its URL or its voxel spacing
  raises \<^verbatim>\<open>KeyError\<close>. The comment above the registry lists both keys among those of
  every value.
\<close>

theorem MODELS_tumor_entry_lacks_url_and_voxel_spacing:
  "length MODELS = 24
   \<and> list_all (\<lambda>(name, d). has_key d ''organ_indices'' \<and> has_key d ''limit_fov'') MODELS
   \<and> map fst (filter (\<lambda>(name, d). \<not> has_key d ''url'') MODELS) = [''clin_pt_fdg_tumor'']
   \<and> map fst (filter (\<lambda>(name, d). \<not> has_key d ''voxel_spacing'') MODELS) = [''clin_pt_fdg_tumor'']
   \<and> map_of MODELS ''clin_pt_fdg_tumor'' = Some clin_pt_fdg_tumor_entry
   \<and> field clin_pt_fdg_tumor_entry ''url'' = None
   \<and> field clin_pt_fdg_tumor_entry ''voxel_spacing'' = None"
proof -
  have "length MODELS = 24"
    by (simp add: MODELS_def)
  moreover have "list_all (\<lambda>(name, d). has_key d ''organ_indices'' \<and> has_key d ''limit_fov'') MODELS"
    by (simp add: MODELS_def has_key_def entry_defs)
  moreover have "map fst (filter (\<lambda>(name, d). \<not> has_key d ''url'') MODELS) = [''clin_pt_fdg_tumor'']"
    by (simp add: MODELS_def has_key_def entry_defs)
  moreover have "map fst (filter (\<lambda>(name, d). \<not> has_key d ''voxel_spacing'') MODELS) = [''clin_pt_fdg_tumor'']"
    by (simp add: MODELS_def has_key_def entry_defs)
  moreover have "map_of MODELS ''clin_pt_fdg_tumor'' = Some clin_pt_fdg_tumor_entry"
    by (simp add: MODELS_def)
  moreover have "field clin_pt_fdg_tumor_entry ''url'' = None"
    and "field clin_pt_fdg_tumor_entry ''voxel_spacing'' = None"
    by (simp_all add: field_def clin_pt_fdg_tumor_entry_def)
  ultimately show ?thesis
    by blast
qed

text \<open>
  For every descriptor: whether its \<^verbatim>\<open>limit_fov\<close> is \<^verbatim>\<open>None\<close>, and the model it
  crops from.
\<close>

lemma MODELS_limit_fov_table:
  "map (\<lambda>(name, d). (name, limit_fov_is_None d, crop_source d)) MODELS =
     [(''clin_ct_lungs'', True, None), (''clin_ct_organs'', True, None),
      (''preclin_mr_all'', True, None), (''clin_ct_body'', True, None),
      (''clin_ct_ribs'', True, None), (''clin_ct_muscles'', True, None),
      (''clin_ct_peripheral_bones'', True, None), (''clin_ct_fat'', True, None),
      (''clin_ct_vertebrae'', True, None), (''clin_ct_cardiac'', True, None),
      (''clin_ct_digestive'', True, None), (''preclin_ct_legs'', True, None),
      (''clin_ct_all_bones_v1'', True, None), (''clin_ct_PUMA'', True, None),
      (''clin_pt_fdg_brain_v1'', True, None), (''clin_ct_ALPACA'', True, None),
      (''clin_ct_PUMA4'', True, None),
      (''clin_ct_liver_segments'', False, Some ''clin_ct_fast_organs''),
      (''clin_ct_fast_organs'', True, None),
      (''clin_ct_aorta'', False, Some ''clin_ct_fast_cardiac''),
      (''clin_pt_fdg_tumor'', True, None),
      (''clin_ct_body_composition'', False, Some ''clin_ct_fast_vertebrae''),
      (''clin_ct_fast_vertebrae'', True, None), (''clin_ct_fast_cardiac'', True, None)]"
  by (simp add: MODELS_def limit_fov_is_None_def crop_source_def field_def entry_defs)

lemma crop_targets_in_MODELS:
  "map_of MODELS ''clin_ct_fast_organs'' = Some clin_ct_fast_organs_entry"
  "map_of MODELS ''clin_ct_fast_cardiac'' = Some clin_ct_fast_cardiac_entry"
  "map_of MODELS ''clin_ct_fast_vertebrae'' = Some clin_ct_fast_vertebrae_entry"
  by (simp_all add: MODELS_def)

lemma crop_targets_limit_fov_None:
  "limit_fov_is_None clin_ct_fast_organs_entry"
  "limit_fov_is_None clin_ct_fast_cardiac_entry"
  "limit_fov_is_None clin_ct_fast_vertebrae_entry"
  by (simp_all add: limit_fov_is_None_def field_def entry_defs)

text \<open>
  Claim C10. Every descriptor of the registry whose \<^verbatim>\<open>limit_fov\<close> is not \<^verbatim>\<open>None\<close>
  names a model to crop from; that model is one of \<^verbatim>\<open>clin_ct_fast_organs\<close>,
  \<^verbatim>\<open>clin_ct_fast_cardiac\<close> and \<^verbatim>\<open>clin_ct_fast_vertebrae\<close>, it is a key of the
  registry, and its own \<^verbatim>\<open>limit_fov\<close> is \<^verbatim>\<open>None\<close>: no reference dangles and no
  chain is longer than one step.
\<close>

theorem crop_dependencies_depth_one:
  assumes "(name, d) \<in> set MODELS" and "\<not> limit_fov_is_None d"
  shows "\<exists>m d'. crop_source d = Some m
           \<and> m \<in> {''clin_ct_fast_organs'', ''clin_ct_fast_cardiac'', ''clin_ct_fast_vertebrae''}
           \<and> map_of MODELS m = Some d' \<and> limit_fov_is_None d'"
proof -
  from assms(1) have "(name, limit_fov_is_None d, crop_source d)
      \<in> set (map (\<lambda>(name, d). (name, limit_fov_is_None d, crop_source d)) MODELS)"
    by force
  with assms(2) have "crop_source d = Some ''clin_ct_fast_organs''
      \<or> crop_source d = Some ''clin_ct_fast_cardiac''
      \<or> crop_source d = Some ''clin_ct_fast_vertebrae''"
    unfolding MODELS_limit_fov_table by auto
  then show ?thesis
    using crop_targets_in_MODELS crop_targets_limit_fov_None by auto
qed

theorem crop_dependencies_depth_one_witness:
  "(''clin_ct_aorta'', clin_ct_aorta_entry) \<in> set MODELS
   \<and> \<not> limit_fov_is_None clin_ct_aorta_entry
   \<and> (\<exists>m d'. crop_source clin_ct_aorta_entry = Some m
         \<and> m \<in> {''clin_ct_fast_organs'', ''clin_ct_fast_cardiac'', ''clin_ct_fast_vertebrae''}
         \<and> map_of MODELS m = Some d' \<and> limit_fov_is_None d')"
proof -
  have a: "(''clin_ct_aorta'', clin_ct_aorta_entry) \<in> set MODELS"
    by (simp add: MODELS_def)
  have b: "\<not> limit_fov_is_None clin_ct_aorta_entry"
    by (simp add: limit_fov_is_None_def field_def clin_ct_aorta_entry_def)
  from crop_dependencies_depth_one [OF a b] a b show ?thesis
    by blast
qed

section \<open>Properties of the model names\<close>

text \<open>
  Claim C9. On the twelve model names the command line accepts,
  \<^verbatim>\<open>map_model_name_to_task_number\<close> returns the task numbers 201 to 212 in the order
  of the choices, it is injective there, and it raises exactly when its argument is
  not one of the twelve.
\<close>

theorem map_model_name_to_task_number_injective_raises_iff:
  "length model_name_choices = 12
   \<and> map map_model_name_to_task_number model_name_choices =
       map Inr [201, 202, 203, 204, 205, 206, 207, 208, 209, 210, 211, 212]
   \<and> inj_on map_model_name_to_task_number (set model_name_choices)
   \<and> ((\<exists>e. map_model_name_to_task_number model_name = Inl e)
        \<longleftrightarrow> model_name \<notin> set model_name_choices)"
  by (simp add: model_name_choices_def map_model_name_to_task_number_def)

text \<open>
  Claim C8. Five of the model names the command line accepts are not keys of the table of
  \<^verbatim>\<open>expected_modality\<close>: for each of them the function returns the error dictionary,
  whatever the world it runs in.
\<close>

theorem expected_modality_rejects_accepted_names:
  "list_all
     (\<lambda>model_name. model_name \<in> set model_name_choices
        \<and> fst (expected_modality model_name s) =
            Inr [(''Error'', ''Requested model is not available. Please check the model name.'')])
     [''clin_ct_bones'', ''clin_ct_vessels'', ''clin_ct_all'', ''clin_fdg_pt_ct_all'',
      ''clin_pt_fdg_tumor'']"
  by (simp add: model_name_choices_def expected_modality_def expected_modality_models_def
      bindE_def emit_def returnE_def)

section \<open>Properties of predict and run_prediction\<close>

lemma shell_calls_append: "shell_calls (xs @ ys) = shell_calls xs @ shell_calls ys"
  by (induction xs rule: shell_calls.induct) simp_all

lemma str_int_202: "str_int 202 = ''202''"
  by (simp add: str_int_def digits_of.simps digit_char_def)

text \<open>One call of \<^verbatim>\<open>predict\<close>, for a name with a task number and for a name without.\<close>

lemma predict_valid:
  assumes "map_model_name_to_task_number m = Inr t"
  shows "predict sh rf m i o' s =
     (Inr (), s\<lparr>environ := AList.update ''RESULTS_FOLDER'' rf (environ s),
                files := snd (sh (predict_command i o' t)
                                (AList.update ''RESULTS_FOLDER'' rf (environ s)) (files s)),
                trace := trace s @ [Run_shell (predict_command i o' t)
                                      (AList.update ''RESULTS_FOLDER'' rf (environ s))]\<rparr>)"
  using assms
  by (simp add: predict_def bindE_def subprocess_run_def returnE_def split: prod.splits)

lemma predict_invalid:
  assumes "map_model_name_to_task_number m = Inl e"
  shows "predict sh rf m i o' s = (Inl e, s)"
  using assms by (simp add: predict_def raiseE_def)

text \<open>The loop: induction on the list of pairs, for any world it starts in.\<close>

lemma predict_each_valid:
  assumes "map_model_name_to_task_number m = Inr t"
  shows "predict_each sh rf m ps s =
     (Inr (), s\<lparr>environ := (if ps = [] then environ s
                              else AList.update ''RESULTS_FOLDER'' rf (environ s)),
                files := fold (\<lambda>(i, o') fs. snd (sh (predict_command i o' t)
                                 (AList.update ''RESULTS_FOLDER'' rf (environ s)) fs)) ps (files s),
                trace := trace s @ map (\<lambda>(i, o'). Run_shell (predict_command i o' t)
                                 (AList.update ''RESULTS_FOLDER'' rf (environ s))) ps\<rparr>)"
proof (induction ps arbitrary: s)
  case Nil
  show ?case
    by (simp add: returnE_def)
next
  case (Cons p ps)
  obtain i o' where p: "p = (i, o')"
    by (cases p)
  show ?case
    by (simp add: p bindE_def predict_valid [OF assms] Cons.IH)
qed

lemma predict_each_invalid:
  assumes "map_model_name_to_task_number m = Inl e" and "ps \<noteq> []"
  shows "predict_each sh rf m ps s = (Inl e, s)"
proof (cases ps)
  case Nil
  with assms(2) show ?thesis
    by simp
next
  case (Cons p qs)
  obtain i o' where p: "p = (i, o')"
    by (cases p)
  show ?thesis
    by (simp add: Cons p bindE_def predict_invalid [OF assms(1)])
qed

lemma predict_exit_code: "predict (with_exit_code rc sh) rf m i o' = predict sh rf m i o'"
  by (rule ext)
    (simp add: predict_def bindE_def subprocess_run_def with_exit_code_def returnE_def
      split: sum.splits prod.splits)

lemma predict_each_exit_code:
  "predict_each (with_exit_code rc sh) rf m ps = predict_each sh rf m ps"
  by (induction ps) (auto simp: predict_exit_code)

text \<open>
  Claim C3, as amended. For every model name that has a task number, \<^verbatim>\<open>predict\<close>
  runs one shell command, built from the input directory, the output directory and the
  task number of the model name; its configuration argument is the fixed name
  \<^verbatim>\<open>3d_fullres\<close>, and the registry is not consulted.
\<close>

theorem predict_command_fixed_configuration:
  assumes "map_model_name_to_task_number m = Inr t"
  shows "shell_calls (trace (snd (predict sh rf m i o' s))) =
     shell_calls (trace s) @
       [''nnUNet_predict -i '' @ i @ '' -o '' @ o' @ '' -t '' @ str_int t
          @ '' -m 3d_fullres -f all'']"
  by (simp add: predict_valid [OF assms] shell_calls_append predict_command_def)

theorem predict_command_fixed_configuration_witness:
  "map_model_name_to_task_number ''clin_ct_ribs'' = Inr 202
   \<and> shell_calls (trace (snd (predict (exit_shell 0) ''/results'' ''clin_ct_ribs'' ''/in'' ''/out''
                                start_world)))
      = [''nnUNet_predict -i /in -o /out -t 202 -m 3d_fullres -f all'']"
proof -
  have t: "map_model_name_to_task_number ''clin_ct_ribs'' = Inr 202"
    by (simp add: map_model_name_to_task_number_def)
  from predict_command_fixed_configuration
         [OF t, of "exit_shell 0" "''/results''" "''/in''" "''/out''" start_world] t
  show ?thesis
    by (simp add: str_int_202 start_world_def)
qed

text \<open>
  The claim as the specification states it fails for \<^verbatim>\<open>clin_ct_ribs\<close>: the registry
  declares the configuration \<^verbatim>\<open>3d_fullres_big_patch\<close>, and the command that
  \<^verbatim>\<open>predict\<close> runs names \<^verbatim>\<open>3d_fullres\<close>.
\<close>

theorem predict_configuration_counterexample:
  "spec_predict_command MODELS ''clin_ct_ribs'' ''/in'' ''/out''
     = Some ''nnUNet_predict -i /in -o /out -t 202 -m 3d_fullres_big_patch -f all''
   \<and> shell_calls (trace (snd (predict (exit_shell 0) ''/results'' ''clin_ct_ribs'' ''/in'' ''/out''
                                start_world)))
     = [''nnUNet_predict -i /in -o /out -t 202 -m 3d_fullres -f all'']"
proof -
  have "map_of MODELS ''clin_ct_ribs'' = Some clin_ct_ribs_entry"
    by (simp add: MODELS_def)
  then have "registry_configuration MODELS ''clin_ct_ribs'' = Some ''3d_fullres_big_patch''"
    by (simp add: registry_configuration_def field_def clin_ct_ribs_entry_def)
  moreover have t: "map_model_name_to_task_number ''clin_ct_ribs'' = Inr 202"
    by (simp add: map_model_name_to_task_number_def)
  ultimately have "spec_predict_command MODELS ''clin_ct_ribs'' ''/in'' ''/out''
     = Some ''nnUNet_predict -i /in -o /out -t 202 -m 3d_fullres_big_patch -f all''"
    by (simp add: spec_predict_command_def str_int_202)
  moreover have "shell_calls (trace (snd (predict (exit_shell 0) ''/results'' ''clin_ct_ribs''
                                            ''/in'' ''/out'' start_world)))
     = [''nnUNet_predict -i /in -o /out -t 202 -m 3d_fullres -f all'']"
    by (simp add: predict_valid [OF t] predict_command_def str_int_202 start_world_def)
  ultimately show ?thesis
    by simp
qed

text \<open>
  Claim C2, as amended. The exit code of the engine is discarded: \<^verbatim>\<open>predict\<close> and
  \<^verbatim>\<open>run_prediction\<close> return the same value and leave the same world whatever exit
  codes the shell ends with, and for a model name of the command line both return
  \<^verbatim>\<open>None\<close>; a failing engine neither raises nor stops the loop.
\<close>

theorem predict_discards_exit_code:
  "predict (with_exit_code rc sh) rf m i o' s = predict sh rf m i o' s
   \<and> run_prediction (with_exit_code rc sh) rf m input_dirs output_dirs s = run_prediction sh rf m input_dirs output_dirs s
   \<and> (m \<in> set model_name_choices \<longrightarrow>
        fst (predict sh rf m i o' s) = Inr ()
        \<and> fst (run_prediction sh rf m input_dirs output_dirs s) = Inr ())"
proof -
  have "fst (predict sh rf m i o' s) = Inr () \<and> fst (run_prediction sh rf m input_dirs output_dirs s) = Inr ()"
    if "m \<in> set model_name_choices"
  proof -
    from that obtain t where t: "map_model_name_to_task_number m = Inr t"
      by (auto simp: model_name_choices_def map_model_name_to_task_number_def)
    show ?thesis
      by (simp add: predict_valid [OF t] run_prediction_def bindE_def
          predict_each_valid [OF t] emit_def)
  qed
  then show ?thesis
    by (simp add: predict_exit_code predict_each_exit_code run_prediction_def)
qed

theorem predict_discards_exit_code_witness:
  "''clin_ct_ribs'' \<in> set model_name_choices
   \<and> fst (predict (exit_shell 1) ''/results'' ''clin_ct_ribs'' ''/in'' ''/out'' start_world) = Inr ()
   \<and> fst (run_prediction (exit_shell 1) ''/results'' ''clin_ct_ribs'' [''/in1'', ''/in2'']
             [''/out1'', ''/out2''] start_world) = Inr ()"
  using predict_discards_exit_code
          [where sh = "exit_shell 1" and rf = "''/results''" and m = "''clin_ct_ribs''"
             and i = "''/in''" and o' = "''/out''" and s = start_world
             and input_dirs = "[''/in1'', ''/in2'']" and output_dirs = "[''/out1'', ''/out2'']"]
  by (simp add: model_name_choices_def)

text \<open>
  The claim as the specification states it fails: with a shell that ends every command
  with exit code 1, \<^verbatim>\<open>predict\<close> and \<^verbatim>\<open>run_prediction\<close> return \<^verbatim>\<open>None\<close> and leave
  the very world they leave when every command ends with exit code 0, so no caller can
  tell the failure.
\<close>

theorem exit_code_not_propagated_counterexample:
  "fst (exit_shell 1 ''nnUNet_predict -i /in -o /out -t 202 -m 3d_fullres -f all'' [] []) = 1
   \<and> predict (exit_shell 1) ''/results'' ''clin_ct_ribs'' ''/in'' ''/out'' start_world
     = predict (exit_shell 0) ''/results'' ''clin_ct_ribs'' ''/in'' ''/out'' start_world
   \<and> fst (predict (exit_shell 1) ''/results'' ''clin_ct_ribs'' ''/in'' ''/out'' start_world) = Inr ()
   \<and> run_prediction (exit_shell 1) ''/results'' ''clin_ct_ribs'' [''/in1'', ''/in2'']
        [''/out1'', ''/out2''] start_world
     = run_prediction (exit_shell 0) ''/results'' ''clin_ct_ribs'' [''/in1'', ''/in2'']
        [''/out1'', ''/out2''] start_world
   \<and> fst (run_prediction (exit_shell 1) ''/results'' ''clin_ct_ribs'' [''/in1'', ''/in2'']
             [''/out1'', ''/out2''] start_world) = Inr ()"
  by (simp add: predict_def run_prediction_def map_model_name_to_task_number_def bindE_def
      subprocess_run_def returnE_def emit_def exit_shell_def start_world_def)

text \<open>
  Claim C6, as amended. For a model name that has a task number, \<^verbatim>\<open>run_prediction\<close>
  returns \<^verbatim>\<open>None\<close> after running one engine command per pair of
  \<^verbatim>\<open>zip(input_dirs, output_dirs)\<close>, in the order of the lists and nothing else between
  them, each command starting on the file system the one before it left. For any other
  model name the first call of \<^verbatim>\<open>predict\<close> raises and ends the loop: with at least one
  pair the exception leaves \<^verbatim>\<open>run_prediction\<close> and no command has run.
\<close>

theorem run_prediction_sequential:
  "(case map_model_name_to_task_number m of
      Inr t \<Rightarrow>
        fst (run_prediction sh rf m input_dirs output_dirs s) = Inr ()
        \<and> trace (snd (run_prediction sh rf m input_dirs output_dirs s)) =
            trace s
            @ map (\<lambda>(i, o'). Run_shell
                    (''nnUNet_predict -i '' @ i @ '' -o '' @ o' @ '' -t '' @ str_int t
                       @ '' -m 3d_fullres -f all'')
                    (AList.update ''RESULTS_FOLDER'' rf (environ s)))
                (zip input_dirs output_dirs)
            @ [Halo_succeed ''Prediction complete'']
        \<and> files (snd (run_prediction sh rf m input_dirs output_dirs s)) =
            fold (\<lambda>(i, o') fs. snd (sh
                    (''nnUNet_predict -i '' @ i @ '' -o '' @ o' @ '' -t '' @ str_int t
                       @ '' -m 3d_fullres -f all'')
                    (AList.update ''RESULTS_FOLDER'' rf (environ s)) fs))
                (zip input_dirs output_dirs) (files s)
    | Inl e \<Rightarrow>
        (if zip input_dirs output_dirs = []
         then run_prediction sh rf m input_dirs output_dirs s
                = (Inr (), s\<lparr>trace := trace s @ [Halo_succeed ''Prediction complete'']\<rparr>)
         else run_prediction sh rf m input_dirs output_dirs s = (Inl e, s)))"
proof (cases "map_model_name_to_task_number m")
  case (Inr t)
  then show ?thesis
    by (simp add: run_prediction_def bindE_def predict_each_valid [OF Inr] emit_def
        predict_command_def)
next
  case (Inl e)
  then show ?thesis
    by (simp add: run_prediction_def bindE_def predict_each_invalid [OF Inl] emit_def returnE_def)
qed

theorem run_prediction_sequential_witness:
  "fst (run_prediction (exit_shell 0) ''/results'' ''clin_ct_ribs'' [''/in1'', ''/in2'']
          [''/out1'', ''/out2'', ''/out3''] start_world) = Inr ()
   \<and> trace (snd (run_prediction (exit_shell 0) ''/results'' ''clin_ct_ribs'' [''/in1'', ''/in2'']
          [''/out1'', ''/out2'', ''/out3''] start_world)) =
       [Run_shell ''nnUNet_predict -i /in1 -o /out1 -t 202 -m 3d_fullres -f all''
          [(''HOME'', ''/root''), (''RESULTS_FOLDER'', ''/results'')],
        Run_shell ''nnUNet_predict -i /in2 -o /out2 -t 202 -m 3d_fullres -f all''
          [(''HOME'', ''/root''), (''RESULTS_FOLDER'', ''/results'')],
        Halo_succeed ''Prediction complete'']
   \<and> files (snd (run_prediction (exit_shell 0) ''/results'' ''clin_ct_ribs'' [''/in1'', ''/in2'']
          [''/out1'', ''/out2'', ''/out3''] start_world)) =
       [''nnUNet_predict -i /in1 -o /out1 -t 202 -m 3d_fullres -f all'',
        ''nnUNet_predict -i /in2 -o /out2 -t 202 -m 3d_fullres -f all'']"
proof -
  have t: "map_model_name_to_task_number ''clin_ct_ribs'' = Inr 202"
    by (simp add: map_model_name_to_task_number_def)
  from run_prediction_sequential
         [where m = "''clin_ct_ribs''" and sh = "exit_shell 0" and rf = "''/results''"
            and input_dirs = "[''/in1'', ''/in2'']"
            and output_dirs = "[''/out1'', ''/out2'', ''/out3'']" and s = start_world]
  show ?thesis
    by (simp add: t str_int_202 start_world_def exit_shell_def)
qed

text \<open>
  The claim as the specification states it fails for a model name without a task number,
  such as the registry key \<^verbatim>\<open>clin_ct_cardiac\<close>: with two pairs of directories the
  first call of \<^verbatim>\<open>predict\<close> raises, the second pair is never reached, and the world
  is left as it was, with no command run.
\<close>

theorem run_prediction_invalid_name_counterexample:
  "map_of MODELS ''clin_ct_cardiac'' = Some clin_ct_cardiac_entry
   \<and> run_prediction (exit_shell 0) ''/results'' ''clin_ct_cardiac'' [''/in1'', ''/in2'']
        [''/out1'', ''/out2''] start_world
     = (Inl (Exception (''Error: The model name '' @ [CHR 0x27] @ ''clin_ct_cardiac'' @ [CHR 0x27]
                        @ '' is not valid.'')),
        start_world)
   \<and> shell_calls (trace start_world) = []"
  by (simp add: MODELS_def run_prediction_def predict_def map_model_name_to_task_number_def
      bindE_def raiseE_def start_world_def)

section \<open>Properties of main\<close>

subsection \<open>No statement of main runs a shell command\<close>

lemma shell_free_returnE: "shell_free (returnE x)"
  by (simp add: shell_free_def returnE_def)

lemma shell_free_raiseE: "shell_free (raiseE e)"
  by (simp add: shell_free_def raiseE_def)

lemma shell_free_emits: "shell_calls es = [] \<Longrightarrow> shell_free (emits es)"
  by (simp add: shell_free_def emits_def shell_calls_append)

lemma shell_free_emit: "shell_calls [e] = [] \<Longrightarrow> shell_free (emit e)"
  by (simp add: shell_free_def emit_def shell_calls_append)

lemma shell_free_call: "shell_free (call name f)"
  by (simp add: shell_free_def call_def shell_calls_append split: prod.splits)

lemma shell_free_bindE:
  assumes "shell_free m" and "\<And>x. shell_free (f x)"
  shows "shell_free (bindE m f)"
  unfolding shell_free_def
proof
  fix s
  show "shell_calls (trace (snd (bindE m f s))) = shell_calls (trace s)"
  proof (cases "m s")
    case (Pair r s')
    with assms(1) have s': "shell_calls (trace s') = shell_calls (trace s)"
      by (metis shell_free_def snd_conv)
    show ?thesis
    proof (cases r)
      case (Inl e)
      with Pair s' show ?thesis
        by (simp add: bindE_def)
    next
      case (Inr x)
      from assms(2) [of x] have "shell_calls (trace (snd (f x s'))) = shell_calls (trace s')"
        by (simp add: shell_free_def)
      with Pair Inr s' show ?thesis
        by (simp add: bindE_def)
    qed
  qed
qed

lemma shell_free_case_prod2:
  "(\<And>a b. shell_free (f a b)) \<Longrightarrow> shell_free (case x of (a, b) \<Rightarrow> f a b)"
  by (cases x) simp

lemma shell_free_case_prod3:
  "(\<And>a b c. shell_free (f a b c)) \<Longrightarrow> shell_free (case x of (a, b, c) \<Rightarrow> f a b c)"
  by (cases x) simp

lemmas shell_free_intros =
  shell_free_bindE shell_free_returnE shell_free_raiseE shell_free_call
  shell_free_case_prod2 shell_free_case_prod3

lemma shell_free_parse_args: "shell_free (parse_args main_directory model_name)"
  by (simp add: parse_args_def shell_free_intros)

lemma shell_free_main_start: "shell_free (main_start ex parent_folder model_name)"
  unfolding main_start_def
  by (intro shell_free_intros shell_free_emits) simp

lemma shell_free_main_download: "shell_free (main_download ex model_name)"
  unfolding main_download_def
  by (intro shell_free_intros shell_free_emits) simp

lemma shell_free_main_modalities: "shell_free (main_modalities ex model_name)"
  unfolding main_modalities_def
  by (intro shell_free_intros shell_free_emit) simp_all

lemma shell_free_main_directories:
  "shell_free (main_directories ex parent_folder model_name modalities)"
  unfolding main_directories_def
  by (intro shell_free_intros shell_free_emits) simp_all

lemma shell_free_make_each_compatible: "shell_free (make_each_compatible ex input_dirs)"
  by (induction input_dirs) (auto intro!: shell_free_intros)

lemma shell_free_list_subjects: "shell_free (list_subjects ex parent_folder)"
  unfolding list_subjects_def
  by (intro shell_free_intros) (simp add: shell_free_def)

lemma shell_free_main_standardize:
  "shell_free (main_standardize ex parent_folder modalities moose_dir input_dirs)"
  unfolding main_standardize_def Let_def
  by (intro shell_free_intros shell_free_emits shell_free_emit shell_free_list_subjects
      shell_free_make_each_compatible) simp_all

lemma shell_free_main_prepare: "shell_free (main_prepare ex main_directory model_name)"
  unfolding main_prepare_def Let_def
  by (intro shell_free_intros shell_free_parse_args shell_free_main_start
      shell_free_main_download shell_free_main_modalities shell_free_main_directories
      shell_free_main_standardize)

lemma shell_free_main_run_prediction: "shell_free main_run_prediction"
  unfolding main_run_prediction_def
  by (intro shell_free_emits) simp

text \<open>
  A run of \<^verbatim>\<open>main\<close> in the concrete setting: the directories of two subjects are
  prepared, \<^verbatim>\<open>main\<close> returns normally, and no shell command has run, while
  \<^verbatim>\<open>run_prediction\<close> on the same directories would run the engine twice.
\<close>

lemma main_two_subjects_prepare:
  "fst (main_prepare two_subjects ''/data'' ''clin_ct_ribs'' start_world) =
     Inr (''/data/moose'', [''/data/moose/in/S1'', ''/data/moose/in/S2''],
          [''/data/moose/out/S1'', ''/data/moose/out/S2''])"
  by (simp add: main_prepare_def main_start_def main_download_def main_modalities_def
      main_directories_def main_standardize_def list_subjects_def parse_args_def
      model_name_choices_def bindE_def returnE_def raiseE_def emit_def emits_def call_def
      two_subjects_def start_world_def os_path_join_def)

lemma main_two_subjects_returns:
  "fst (main two_subjects ''/data'' ''clin_ct_ribs'' start_world) = Inr ()"
proof (cases "main_prepare two_subjects ''/data'' ''clin_ct_ribs'' start_world")
  case (Pair r s')
  with main_two_subjects_prepare show ?thesis
    by (simp add: main_def bindE_def main_run_prediction_def emits_def)
qed

lemma run_prediction_two_subjects:
  "shell_calls (trace (snd (run_prediction (exit_shell 0) ''/results'' ''clin_ct_ribs''
      [''/data/moose/in/S1'', ''/data/moose/in/S2'']
      [''/data/moose/out/S1'', ''/data/moose/out/S2''] start_world))) =
     [''nnUNet_predict -i /data/moose/in/S1 -o /data/moose/out/S1 -t 202 -m 3d_fullres -f all'',
      ''nnUNet_predict -i /data/moose/in/S2 -o /data/moose/out/S2 -t 202 -m 3d_fullres -f all'']"
proof -
  have t: "map_model_name_to_task_number ''clin_ct_ribs'' = Inr 202"
    by (simp add: map_model_name_to_task_number_def)
  show ?thesis
    by (simp add: run_prediction_def bindE_def predict_valid [OF t] returnE_def emit_def
        predict_command_def str_int_202 start_world_def shell_calls_append)
qed

text \<open>
  Claim C1. The claim does not hold of the code: whatever the model name, the main
  directory and the functions \<^verbatim>\<open>main\<close> calls, a run of \<^verbatim>\<open>main\<close> hands no command to
  the shell, so the engine is never invoked. The last section of \<^verbatim>\<open>main\<close> announces
  the prediction and its comment says to run the segmentation, but
  \<^verbatim>\<open>run_prediction\<close> is not called.
\<close>

theorem main_runs_no_shell_command:
  "shell_calls (trace (snd (main ex main_directory model_name s))) = shell_calls (trace s)"
proof -
  have "shell_free (main ex main_directory model_name)"
    unfolding main_def
    by (intro shell_free_intros shell_free_main_prepare shell_free_main_run_prediction)
  then show ?thesis
    by (simp add: shell_free_def)
qed

text \<open>
  Claim C7. In every run of \<^verbatim>\<open>main\<close> the last section only prints three lines and
  writes three log records: when the sections before it raise, \<^verbatim>\<open>main\<close> ends with
  their exception, and otherwise it returns \<^verbatim>\<open>None\<close> in the world they left with these
  six events added. The file system at the end of \<^verbatim>\<open>main\<close> is the one the
  standardisation left, so nothing is moved or copied back into the subject folders.
\<close>

theorem main_last_section_moves_no_file:
  "(case main_prepare ex main_directory model_name s of
      (Inl e, s') \<Rightarrow> main ex main_directory model_name s = (Inl e, s')
    | (Inr dirs, s') \<Rightarrow>
        main ex main_directory model_name s =
          (Inr (), s'\<lparr>trace := trace s' @
             [Print '''', Print '' RUNNING PREDICTION:'', Print '''',
              Log_info '' '', Log_info '' RUNNING PREDICTION:'', Log_info '' '']\<rparr>))
   \<and> files (snd (main ex main_directory model_name s)) =
       files (snd (main_prepare ex main_directory model_name s))"
  by (simp add: main_def bindE_def main_run_prediction_def emits_def
      split: prod.splits sum.splits)

section \<open>The registry is never read\<close>

lemma registry_free_returnE: "registry_free (returnE x)"
  by (simp add: registry_free_def returnE_def)

lemma registry_free_raiseE: "registry_free (raiseE e)"
  by (simp add: registry_free_def raiseE_def)

lemma registry_free_emits: "registry_free (emits es)"
  by (simp add: registry_free_def emits_def)

lemma registry_free_emit: "registry_free (emit e)"
  by (simp add: registry_free_def emit_def)

lemma registry_free_call: "registry_free (call name f)"
  by (simp add: registry_free_def call_def split: prod.splits)

lemma registry_free_subprocess_run: "registry_free (subprocess_run sh cmd)"
  by (simp add: registry_free_def subprocess_run_def split: prod.splits)

lemma registry_free_bindE:
  assumes "registry_free m" and "\<And>x. registry_free (f x)"
  shows "registry_free (bindE m f)"
  unfolding registry_free_def
proof (intro allI)
  fix s r
  from assms(1) have m: "m (s\<lparr>registry := r\<rparr>) = (fst (m s), (snd (m s))\<lparr>registry := r\<rparr>)"
    by (simp add: registry_free_def)
  show "bindE m f (s\<lparr>registry := r\<rparr>) = (fst (bindE m f s), (snd (bindE m f s))\<lparr>registry := r\<rparr>)"
  proof (cases "m s")
    case (Pair res s')
    show ?thesis
    proof (cases res)
      case (Inl e)
      with Pair m show ?thesis
        by (simp add: bindE_def)
    next
      case (Inr x)
      from assms(2) [of x]
      have "f x (s'\<lparr>registry := r\<rparr>) = (fst (f x s'), (snd (f x s'))\<lparr>registry := r\<rparr>)"
        by (simp add: registry_free_def)
      with Pair Inr m show ?thesis
        by (simp add: bindE_def)
    qed
  qed
qed

lemma registry_free_case_prod2:
  "(\<And>a b. registry_free (f a b)) \<Longrightarrow> registry_free (case x of (a, b) \<Rightarrow> f a b)"
  by (cases x) simp

lemma registry_free_case_prod3:
  "(\<And>a b c. registry_free (f a b c)) \<Longrightarrow> registry_free (case x of (a, b, c) \<Rightarrow> f a b c)"
  by (cases x) simp

lemmas registry_free_intros =
  registry_free_bindE registry_free_returnE registry_free_raiseE registry_free_call
  registry_free_emits registry_free_emit registry_free_subprocess_run
  registry_free_case_prod2 registry_free_case_prod3

lemma registry_free_expected_modality: "registry_free (expected_modality model_name)"
  unfolding expected_modality_def
  by (cases "map_of expected_modality_models model_name") (auto intro!: registry_free_intros)

lemma registry_free_predict: "registry_free (predict sh rf model_name input_dir output_dir)"
proof (cases "map_model_name_to_task_number model_name")
  case (Inl e)
  then show ?thesis
    by (simp add: predict_def registry_free_raiseE)
next
  case (Inr t)
  have "registry_free (\<lambda>s::'a world. (Inr () :: py_error + unit,
          s\<lparr>environ := AList.update ''RESULTS_FOLDER'' rf (environ s)\<rparr>))"
    by (simp add: registry_free_def)
  with Inr show ?thesis
    by (auto simp: predict_def intro!: registry_free_intros)
qed

lemma registry_free_predict_each: "registry_free (predict_each sh rf model_name pairs)"
  by (induction pairs) (auto intro!: registry_free_intros registry_free_predict)

lemma registry_free_run_prediction:
  "registry_free (run_prediction sh rf model_name input_dirs output_dirs)"
  unfolding run_prediction_def
  by (intro registry_free_intros registry_free_predict_each)

lemma registry_free_make_each_compatible: "registry_free (make_each_compatible ex input_dirs)"
  by (induction input_dirs) (auto intro!: registry_free_intros)

lemma registry_free_list_subjects: "registry_free (list_subjects ex parent_folder)"
  unfolding list_subjects_def
  by (intro registry_free_intros) (simp add: registry_free_def)

lemma registry_free_main_standardize:
  "registry_free (main_standardize ex parent_folder modalities moose_dir input_dirs)"
  unfolding main_standardize_def Let_def
  by (intro registry_free_intros registry_free_list_subjects registry_free_make_each_compatible)

lemma registry_free_parse_args: "registry_free (parse_args main_directory model_name)"
  by (simp add: parse_args_def registry_free_intros)

lemma registry_free_main: "registry_free (main ex main_directory model_name)"
  unfolding main_def main_prepare_def main_run_prediction_def main_start_def main_download_def
    main_modalities_def main_directories_def Let_def
  by (intro registry_free_intros registry_free_parse_args registry_free_main_standardize)

lemma registry_free_run_operation: "registry_free (run_operation sh rf ex op)"
proof (cases op)
  case (Op_map_model_name_to_task_number m)
  then show ?thesis
    by (cases "map_model_name_to_task_number m")
      (auto simp: run_operation_def intro!: registry_free_intros)
qed (auto simp: run_operation_def intro!: registry_free_intros registry_free_main
       registry_free_predict registry_free_run_prediction registry_free_expected_modality)

lemma same_except_limit_fov_registry:
  assumes "same_except_limit_fov s1 s2"
  shows "s2 = s1\<lparr>registry := registry s2\<rparr>"
  using assms by (cases s1, cases s2) (simp add: same_except_limit_fov_def)

lemma mask_limit_fov_idem: "mask_limit_fov (mask_limit_fov M) = mask_limit_fov M"
  by (auto simp: mask_limit_fov_def)

lemma mask_limit_fov_changes_MODELS: "mask_limit_fov MODELS \<noteq> MODELS"
proof
  assume "mask_limit_fov MODELS = MODELS"
  then have "map_of (mask_limit_fov MODELS) ''clin_ct_liver_segments''
      = map_of MODELS ''clin_ct_liver_segments''"
    by simp
  then show False
    by (simp add: mask_limit_fov_def MODELS_def clin_ct_liver_segments_entry_def)
qed

text \<open>
  Claim C5. Two runs of any of the five operations that start in worlds differing only
  in the \<^verbatim>\<open>limit_fov\<close> values of the registry end with the same value or exception,
  the same shell commands, the same events, the same file system and the same
  environment. The functions \<^verbatim>\<open>main\<close> calls outside the sources are parameters that
  act on the file system only.
\<close>

theorem limit_fov_noninterference:
  assumes "same_except_limit_fov s1 s2"
  shows "fst (run_operation sh rf ex op s1) = fst (run_operation sh rf ex op s2)
    \<and> shell_calls (trace (snd (run_operation sh rf ex op s1)))
        = shell_calls (trace (snd (run_operation sh rf ex op s2)))
    \<and> trace (snd (run_operation sh rf ex op s1)) = trace (snd (run_operation sh rf ex op s2))
    \<and> files (snd (run_operation sh rf ex op s1)) = files (snd (run_operation sh rf ex op s2))
    \<and> environ (snd (run_operation sh rf ex op s1)) = environ (snd (run_operation sh rf ex op s2))"
proof -
  have "run_operation sh rf ex op (s1\<lparr>registry := registry s2\<rparr>) =
      (fst (run_operation sh rf ex op s1),
       (snd (run_operation sh rf ex op s1))\<lparr>registry := registry s2\<rparr>)"
    using registry_free_run_operation [of sh rf ex op]
    by (simp add: registry_free_def)
  with same_except_limit_fov_registry [OF assms]
  have "run_operation sh rf ex op s2 =
      (fst (run_operation sh rf ex op s1),
       (snd (run_operation sh rf ex op s1))\<lparr>registry := registry s2\<rparr>)"
    by simp
  then show ?thesis
    by simp
qed

theorem limit_fov_noninterference_witness:
  "same_except_limit_fov start_world (start_world\<lparr>registry := mask_limit_fov MODELS\<rparr>)
   \<and> registry start_world \<noteq> registry (start_world\<lparr>registry := mask_limit_fov MODELS\<rparr>)
   \<and> fst (run_operation (exit_shell 0) ''/results'' two_subjects
            (Op_run_prediction ''clin_ct_ribs'' [''/in''] [''/out'']) start_world)
     = fst (run_operation (exit_shell 0) ''/results'' two_subjects
            (Op_run_prediction ''clin_ct_ribs'' [''/in''] [''/out''])
            (start_world\<lparr>registry := mask_limit_fov MODELS\<rparr>))
   \<and> shell_calls (trace (snd (run_operation (exit_shell 0) ''/results'' two_subjects
            (Op_run_prediction ''clin_ct_ribs'' [''/in''] [''/out'']) start_world)))
     = shell_calls (trace (snd (run_operation (exit_shell 0) ''/results'' two_subjects
            (Op_run_prediction ''clin_ct_ribs'' [''/in''] [''/out''])
            (start_world\<lparr>registry := mask_limit_fov MODELS\<rparr>))))"
proof -
  have h: "same_except_limit_fov start_world (start_world\<lparr>registry := mask_limit_fov MODELS\<rparr>)"
    by (simp add: same_except_limit_fov_def start_world_def mask_limit_fov_idem)
  have d: "registry start_world \<noteq> registry (start_world\<lparr>registry := mask_limit_fov MODELS\<rparr>)"
    using mask_limit_fov_changes_MODELS by (simp add: start_world_def)
  from limit_fov_noninterference
         [OF h, of "exit_shell 0" "''/results''" two_subjects
            "Op_run_prediction ''clin_ct_ribs'' [''/in''] [''/out'']"] h d
  show ?thesis
    by blast
qed

end
